theory Spec2Isabelle
  imports Main
begin

section \<open>JavaScript values\<close>

text \<open>
  The worker exists twice in the repository: \<^verbatim>\<open>src/index.js\<close> (the image arrives inline as
  base64) and \<^verbatim>\<open>src/unnamed/part_000\<close> (the image arrives as a URL and is downloaded).
  Functions that are the same text in both files are modelled once; where the two
  files differ, the definition from \<^verbatim>\<open>index.js\<close> carries the suffix \<open>_index\<close> and the one
  from \<^verbatim>\<open>part_000\<close> the suffix \<open>_part0\<close>.

  What \<^verbatim>\<open>JSON.parse\<close> returns is a \<open>json\<close> value. A JavaScript
  value that may also be \<^verbatim>\<open>undefined\<close> is a \<open>json option\<close>, with \<open>None\<close> for
  \<^verbatim>\<open>undefined\<close>. A number \<open>JNum n\<close> is an integer, and \<open>show_int\<close> prints it in decimal
  digits: that is what JavaScript prints for an integer of magnitude below \<open>10^21\<close>. An
  integer from \<open>10^21\<close> on, which JavaScript prints with an exponent, and a number with a
  fraction are not values of the model. The pairs of a \<open>JObj\<close> are the own properties in property order;
  \<open>map_of\<close> reads them. Strings are lists of code units.
\<close>

datatype json = JNull | JBool bool | JNum int | JStr string
  | JArr "json list" | JObj "(string \<times> json) list"

type_synonym jsval = "json option"

text \<open>Thrown values: all are \<^verbatim>\<open>Error\<close> objects; the handler only reads \<^verbatim>\<open>e.message\<close>.\<close>

datatype error = Error string | TypeError string | SyntaxError string

fun message :: "error \<Rightarrow> string" where
  "message (Error m) = m"
| "message (TypeError m) = m"
| "message (SyntaxError m) = m"

definition and_then :: "error + 'a \<Rightarrow> ('a \<Rightarrow> error + 'b) \<Rightarrow> error + 'b" where
  \<comment> \<open>sequencing of two expressions, the first of which may throw\<close>
  "and_then r f = (case r of Inl e \<Rightarrow> Inl e | Inr x \<Rightarrow> f x)"

fun truthy :: "jsval \<Rightarrow> bool" where
  "truthy None = False"
| "truthy (Some JNull) = False"
| "truthy (Some (JBool b)) = b"
| "truthy (Some (JNum n)) = (n \<noteq> 0)"
| "truthy (Some (JStr s)) = (s \<noteq> [])"
| "truthy (Some (JArr xs)) = True"
| "truthy (Some (JObj kvs)) = True"

fun show_nat :: "nat \<Rightarrow> string" where
  "show_nat n = (if n < 10 then [''0123456789'' ! n]
                 else show_nat (n div 10) @ [''0123456789'' ! (n mod 10)])"

declare show_nat.simps [simp del]

definition show_int :: "int \<Rightarrow> string" where
  "show_int i = (if i < 0 then CHR ''-'' # show_nat (nat (- i)) else show_nat (nat i))"

definition cannot_read :: "string \<Rightarrow> string \<Rightarrow> error" where
  "cannot_read what k =
     TypeError (''Cannot read properties of '' @ what @ '' (reading '' @ [CHR 0x27] @ k @ [CHR 0x27] @ '')'')"

text \<open>
  \<^verbatim>\<open>v.k\<close> for the property names the program reads (\<^verbatim>\<open>data\<close>, \<^verbatim>\<open>url\<close>, \<^verbatim>\<open>b64_json\<close>,
  \<^verbatim>\<open>length\<close>, \<^verbatim>\<open>title\<close>, \<^verbatim>\<open>rendered\<close>, \<^verbatim>\<open>id\<close>): none of them is inherited from a
  prototype, except \<^verbatim>\<open>length\<close> of arrays and strings.
\<close>

fun get_prop :: "string \<Rightarrow> jsval \<Rightarrow> error + jsval" where
  "get_prop k None = Inl (cannot_read ''undefined'' k)"
| "get_prop k (Some JNull) = Inl (cannot_read ''null'' k)"
| "get_prop k (Some (JObj kvs)) = Inr (map_of kvs k)"
| "get_prop k (Some (JArr xs)) =
     Inr (if k = ''length'' then Some (JNum (int (length xs))) else None)"
| "get_prop k (Some (JStr s)) =
     Inr (if k = ''length'' then Some (JNum (int (length s))) else None)"
| "get_prop k (Some (JBool b)) = Inr None"
| "get_prop k (Some (JNum n)) = Inr None"

text \<open>\<^verbatim>\<open>v[i]\<close> for a literal index \<open>i\<close>.\<close>

fun get_index :: "nat \<Rightarrow> jsval \<Rightarrow> error + jsval" where
  "get_index i None = Inl (cannot_read ''undefined'' (show_nat i))"
| "get_index i (Some JNull) = Inl (cannot_read ''null'' (show_nat i))"
| "get_index i (Some (JArr xs)) = Inr (if i < length xs then Some (xs ! i) else None)"
| "get_index i (Some (JStr s)) = Inr (if i < length s then Some (JStr [s ! i]) else None)"
| "get_index i (Some (JObj kvs)) = Inr (map_of kvs (show_nat i))"
| "get_index i (Some (JBool b)) = Inr None"
| "get_index i (Some (JNum n)) = Inr None"

fun Array_isArray :: "jsval \<Rightarrow> bool" where
  "Array_isArray (Some (JArr xs)) = True"
| "Array_isArray _ = False"

text \<open>
  String conversion, as a template literal performs it. An array joins its elements
  with commas, \<^verbatim>\<open>null\<close> elements giving the empty string. An object prints as
  \<^verbatim>\<open>[object Object]\<close> unless it has an own property \<^verbatim>\<open>toString\<close>: a parsed value is
  never callable, so the conversion then finds no usable method and throws.
\<close>

fun ToString_json :: "json \<Rightarrow> error + string"
  and Array_join :: "json list \<Rightarrow> error + string" where
  "ToString_json JNull = Inr ''null''"
| "ToString_json (JBool b) = Inr (if b then ''true'' else ''false'')"
| "ToString_json (JNum n) = Inr (show_int n)"
| "ToString_json (JStr s) = Inr s"
| "ToString_json (JArr xs) = Array_join xs"
| "ToString_json (JObj kvs) =
     (if ''toString'' \<in> fst ` set kvs
      then Inl (TypeError ''Cannot convert object to primitive value'')
      else Inr ''[object Object]'')"
| "Array_join [] = Inr []"
| "Array_join [x] = (if x = JNull then Inr [] else ToString_json x)"
| "Array_join (x # y # ys) =
     (case (if x = JNull then Inr [] else ToString_json x) of
        Inl e \<Rightarrow> Inl e
      | Inr s \<Rightarrow>
          (case Array_join (y # ys) of
             Inl e \<Rightarrow> Inl e
           | Inr t \<Rightarrow> Inr (s @ '','' @ t)))"

fun ToString :: "jsval \<Rightarrow> error + string" where
  "ToString None = Inr ''undefined''"
| "ToString (Some v) = ToString_json v"

text \<open>\<^verbatim>\<open>JSON.stringify\<close> without indentation.\<close>

definition hex_digit :: "nat \<Rightarrow> char" where
  "hex_digit d = ''0123456789abcdef'' ! d"

definition JSON_escape :: "char \<Rightarrow> string" where
  "JSON_escape c =
     (if c = CHR 0x22 then [CHR 0x5C, CHR 0x22]
      else if c = CHR 0x5C then [CHR 0x5C, CHR 0x5C]
      else if c = CHR 0x08 then [CHR 0x5C, CHR ''b'']
      else if c = CHR 0x09 then [CHR 0x5C, CHR ''t'']
      else if c = CHR 0x0A then [CHR 0x5C, CHR ''n'']
      else if c = CHR 0x0C then [CHR 0x5C, CHR ''f'']
      else if c = CHR 0x0D then [CHR 0x5C, CHR ''r'']
      else if of_char c < (32::nat)
        then [CHR 0x5C, CHR ''u'', CHR ''0'', CHR ''0'',
              hex_digit (of_char c div 16), hex_digit (of_char c mod 16)]
      else [c])"

definition JSON_quote :: "string \<Rightarrow> string" where
  "JSON_quote s = [CHR 0x22] @ concat (map JSON_escape s) @ [CHR 0x22]"

fun JSON_stringify :: "json \<Rightarrow> string"
  and JSON_elements :: "json list \<Rightarrow> string"
  and JSON_members :: "(string \<times> json) list \<Rightarrow> string" where
  "JSON_stringify JNull = ''null''"
| "JSON_stringify (JBool b) = (if b then ''true'' else ''false'')"
| "JSON_stringify (JNum n) = show_int n"
| "JSON_stringify (JStr s) = JSON_quote s"
| "JSON_stringify (JArr xs) = ''['' @ JSON_elements xs @ '']''"
| "JSON_stringify (JObj kvs) = ''{'' @ JSON_members kvs @ ''}''"
| "JSON_elements [] = []"
| "JSON_elements [x] = JSON_stringify x"
| "JSON_elements (x # y # ys) = JSON_stringify x @ '','' @ JSON_elements (y # ys)"
| "JSON_members [] = []"
| "JSON_members [(k, v)] = JSON_quote k @ '':'' @ JSON_stringify v"
| "JSON_members ((k, v) # p # ps) =
     JSON_quote k @ '':'' @ JSON_stringify v @ '','' @ JSON_members (p # ps)"

text \<open>
  An object literal whose property values may be \<^verbatim>\<open>undefined\<close>: \<^verbatim>\<open>JSON.stringify\<close>
  leaves those properties out.
\<close>

fun defined_fields :: "(string \<times> jsval) list \<Rightarrow> (string \<times> json) list" where
  "defined_fields [] = []"
| "defined_fields ((k, None) # fs) = defined_fields fs"
| "defined_fields ((k, Some v) # fs) = (k, v) # defined_fields fs"

definition JSON_stringify_literal :: "(string \<times> jsval) list \<Rightarrow> string" where
  "JSON_stringify_literal fs = JSON_stringify (JObj (defined_fields fs))"

section \<open>Configuration and the world outside\<close>

text \<open>\<^verbatim>\<open>process.env\<close>: a variable that is not set reads as \<^verbatim>\<open>undefined\<close>.\<close>

record process_env =
  OPENAI_API_KEY :: "string option"
  WP_SITE_URL :: "string option"
  WP_USERNAME :: "string option"
  WP_APP_PASSWORD :: "string option"
  WORKER_SECRET_var :: "string option"

definition WORKER_SECRET :: "process_env \<Rightarrow> string" where
  "WORKER_SECRET ev =
     (case WORKER_SECRET_var ev of
        None \<Rightarrow> ''changeme''
      | Some s \<Rightarrow> if s = [] then ''changeme'' else s)"

definition env_text :: "string option \<Rightarrow> string" where
  \<comment> \<open>an environment variable inside a template literal\<close>
  "env_text v = (case v of None \<Rightarrow> ''undefined'' | Some s \<Rightarrow> s)"

record request = "method" :: string
  url :: string
  headers :: "(string \<times> string) list"
  body :: "string option"

record response =
  status :: nat
  content :: string

definition ok :: "response \<Rightarrow> bool" where
  "ok res = (200 \<le> status res \<and> status res \<le> 299)"

record url_obj =
  pathname :: string
  searchParams :: "(string \<times> string) list"

definition searchParams_get :: "url_obj \<Rightarrow> string \<Rightarrow> string option" where
  \<comment> \<open>the first value of that name, \<^verbatim>\<open>null\<close> when there is none\<close>
  "searchParams_get u name = map_of (searchParams u) name"

text \<open>
  What the program takes from Node and from the network. \<open>fetch\<close> answers a request
  given the requests issued before it (\<open>Inl\<close>: the promise rejects); \<open>JSON_parse\<close> is
  \<^verbatim>\<open>JSON.parse\<close>; \<open>URL_new\<close> is \<^verbatim>\<open>new URL(req.url, 'http://localhost')\<close>;
  \<open>to_base64\<close> is \<^verbatim>\<open>Buffer.from(s).toString('base64')\<close> and \<open>from_base64\<close> is
  \<^verbatim>\<open>Buffer.from(v, 'base64')\<close>. Console output is not modelled; the string
  conversions it forces are, since they can throw.
\<close>

record runtime =
  fetch :: "request list \<Rightarrow> request \<Rightarrow> error + response"
  JSON_parse :: "string \<Rightarrow> error + json"
  Date_now :: nat
  URL_new :: "string \<Rightarrow> error + url_obj"
  to_base64 :: "string \<Rightarrow> string"
  from_base64 :: "jsval \<Rightarrow> error + string"

text \<open>The state of a run is the list of requests sent so far, oldest first.\<close>

type_synonym trace = "request list"
type_synonym 'a io = "trace \<Rightarrow> (error + 'a) \<times> trace"

definition await :: "'a io \<Rightarrow> ('a \<Rightarrow> 'b io) \<Rightarrow> 'b io" where
  "await m f h = (case m h of (Inl e, h') \<Rightarrow> (Inl e, h') | (Inr x, h') \<Rightarrow> f x h')"

definition eval :: "error + 'a \<Rightarrow> 'a io" where
  "eval r h = (r, h)"

definition do_fetch :: "runtime \<Rightarrow> request \<Rightarrow> response io" where
  "do_fetch rt req h = (fetch rt h req, h @ [req])"

definition wpAuthHeader :: "runtime \<Rightarrow> process_env \<Rightarrow> string" where
  "wpAuthHeader rt ev =
     ''Basic '' @ to_base64 rt (env_text (WP_USERNAME ev) @ '':'' @ env_text (WP_APP_PASSWORD ev))"

definition strip_trailing_slashes :: "string \<Rightarrow> string" where
  \<comment> \<open>\<^verbatim>\<open>s.replace(/\/+$/, '')\<close>\<close>
  "strip_trailing_slashes s = rev (dropWhile (\<lambda>c. c = CHR ''/'') (rev s))"

definition site_url :: "process_env \<Rightarrow> string \<Rightarrow> error + string" where
  \<comment> \<open>\<^verbatim>\<open>WP_SITE_URL.replace(/\/+$/, '') + endpoint\<close>\<close>
  "site_url ev endpoint =
     (case WP_SITE_URL ev of
        None \<Rightarrow> Inl (cannot_read ''undefined'' ''replace'')
      | Some s \<Rightarrow> Inr (strip_trailing_slashes s @ endpoint))"

section \<open>The image client\<close>

definition openai_request :: "process_env \<Rightarrow> (string \<times> json) list \<Rightarrow> request" where
  "openai_request ev props =
     \<lparr>method = ''POST'', url = ''https://api.openai.com/v1/images/generations'',
      headers = [(''Authorization'', ''Bearer '' @ env_text (OPENAI_API_KEY ev)),
                 (''Content-Type'', ''application/json'')],
      body = Some (JSON_stringify (JObj props))\<rparr>"

definition openai_error :: "response \<Rightarrow> error" where
  "openai_error res = Error (''OpenAI error '' @ show_nat (status res) @ '': '' @ content res)"

text \<open>\<^verbatim>\<open>index.js\<close>: the image comes back inline, \<^verbatim>\<open>data.data[0].b64_json\<close>.\<close>

definition callOpenAIImage_index :: "runtime \<Rightarrow> process_env \<Rightarrow> string \<Rightarrow> string io" where
  "callOpenAIImage_index rt ev prompt =
     await (do_fetch rt (openai_request ev
              [(''model'', JStr ''gpt-image-1''), (''prompt'', JStr prompt),
               (''size'', JStr ''1024x1024''), (''response_format'', JStr ''b64_json'')]))
       (\<lambda>res. if \<not> ok res then eval (Inl (openai_error res))
          else await (eval (JSON_parse rt (content res)))
            (\<lambda>data. eval
               (and_then (get_prop ''data'' (Some data))
                 (\<lambda>d. and_then (get_index 0 d)
                   (\<lambda>d0. and_then (get_prop ''b64_json'' d0) (from_base64 rt))))))"

text \<open>
  \<^verbatim>\<open>part_000\<close>: the response names a URL, which is downloaded. \<open>image_url_part0\<close> is the
  guard \<^verbatim>\<open>!data.data || !data.data[0] || !data.data[0].url\<close> followed by the read of
  \<^verbatim>\<open>data.data[0].url\<close>.
\<close>

definition image_url_part0 :: "json \<Rightarrow> error + jsval" where
  "image_url_part0 data =
     and_then (get_prop ''data'' (Some data))
       (\<lambda>d. if \<not> truthy d then Inl (Error ''OpenAI response missing image URL'')
          else and_then (get_index 0 d)
            (\<lambda>d0. if \<not> truthy d0 then Inl (Error ''OpenAI response missing image URL'')
               else and_then (get_prop ''url'' d0)
                 (\<lambda>u. if \<not> truthy u then Inl (Error ''OpenAI response missing image URL'')
                    else Inr u)))"

definition download_request :: "string \<Rightarrow> request" where
  "download_request u = \<lparr>method = ''GET'', url = u, headers = [], body = None\<rparr>"

definition download_error :: "response \<Rightarrow> error" where
  "download_error res =
     Error (''Failed to download image from OpenAI URL: '' @ show_nat (status res))"

definition callOpenAIImage_part0 :: "runtime \<Rightarrow> process_env \<Rightarrow> string \<Rightarrow> string io" where
  "callOpenAIImage_part0 rt ev prompt =
     await (do_fetch rt (openai_request ev
              [(''model'', JStr ''gpt-image-1''), (''prompt'', JStr prompt),
               (''size'', JStr ''1024x1024'')]))
       (\<lambda>res. if \<not> ok res then eval (Inl (openai_error res))
          else await (eval (JSON_parse rt (content res)))
            (\<lambda>data. await (eval (image_url_part0 data))
              (\<lambda>imageUrl. await (eval (ToString imageUrl))
                (\<lambda>u. await (do_fetch rt (download_request u))
                  (\<lambda>imgRes. if \<not> ok imgRes then eval (Inl (download_error imgRes))
                     else eval (Inr (content imgRes)))))))"

section \<open>The content client\<close>

definition wpApiJson ::
  "runtime \<Rightarrow> process_env \<Rightarrow> string \<Rightarrow> string \<Rightarrow> (string \<times> jsval) list option \<Rightarrow> json io" where
  "wpApiJson rt ev meth endpoint bdy =
     await (eval (site_url ev endpoint))
       (\<lambda>u. await (do_fetch rt
                \<lparr>method = meth, url = u,
                 headers = [(''Authorization'', wpAuthHeader rt ev),
                            (''Content-Type'', ''application/json'')],
                 body = (case bdy of None \<Rightarrow> None
                         | Some props \<Rightarrow> Some (JSON_stringify_literal props))\<rparr>)
          (\<lambda>res. if \<not> ok res
             then eval (Inl (Error (''WP API '' @ meth @ '' '' @ endpoint @ '' ''
                                     @ show_nat (status res) @ '': '' @ content res)))
             else eval (JSON_parse rt (content res))))"

definition posts_endpoint :: string where
  "posts_endpoint = ''/wp-json/wp/v2/posts?per_page=1&orderby=date&order=desc''"

definition getLatestPost_index :: "runtime \<Rightarrow> process_env \<Rightarrow> jsval io" where
  "getLatestPost_index rt ev =
     await (wpApiJson rt ev ''GET'' posts_endpoint None)
       (\<lambda>posts. await (eval (get_prop ''length'' (Some posts)))
          (\<lambda>len. if \<not> truthy len then eval (Inl (Error ''No posts found''))
             else eval (get_index 0 (Some posts))))"

definition getLatestPost_part0 :: "runtime \<Rightarrow> process_env \<Rightarrow> jsval io" where
  "getLatestPost_part0 rt ev =
     await (wpApiJson rt ev ''GET'' posts_endpoint None)
       (\<lambda>posts. if \<not> Array_isArray (Some posts)
                    \<or> get_prop ''length'' (Some posts) = Inr (Some (JNum 0))
          then eval (Inl (Error ''No posts found''))
          else eval (get_index 0 (Some posts)))"

definition media_request :: "runtime \<Rightarrow> process_env \<Rightarrow> string \<Rightarrow> string \<Rightarrow> string \<Rightarrow> request" where
  "media_request rt ev u buffer filename =
     \<lparr>method = ''POST'', url = u,
      headers = [(''Authorization'', wpAuthHeader rt ev),
                 (''Content-Type'', ''image/png''),
                 (''Content-Disposition'',
                  ''attachment; filename='' @ [CHR 0x22] @ filename @ [CHR 0x22])],
      body = Some buffer\<rparr>"

definition media_error :: "response \<Rightarrow> error" where
  "media_error res = Error (''WP media error '' @ show_nat (status res) @ '': '' @ content res)"

definition uploadImageToWP_index :: "runtime \<Rightarrow> process_env \<Rightarrow> string \<Rightarrow> string \<Rightarrow> jsval io" where
  "uploadImageToWP_index rt ev buffer filename =
     await (eval (site_url ev ''/wp-json/wp/v2/media''))
       (\<lambda>u. await (do_fetch rt (media_request rt ev u buffer filename))
          (\<lambda>res. if \<not> ok res then eval (Inl (media_error res))
             else await (eval (JSON_parse rt (content res)))
               (\<lambda>data. eval (get_prop ''id'' (Some data)))))"

definition uploadImageToWP_part0 :: "runtime \<Rightarrow> process_env \<Rightarrow> string \<Rightarrow> string \<Rightarrow> jsval io" where
  "uploadImageToWP_part0 rt ev buffer filename =
     await (eval (site_url ev ''/wp-json/wp/v2/media''))
       (\<lambda>u. await (do_fetch rt (media_request rt ev u buffer filename))
          (\<lambda>res. if \<not> ok res then eval (Inl (media_error res))
             else await (eval (JSON_parse rt (content res)))
               (\<lambda>data. await (eval (get_prop ''id'' (Some data)))
                  (\<lambda>i. if \<not> truthy i then eval (Inl (Error ''Media upload missing id''))
                     else eval (Inr i)))))"

definition setFeaturedImage :: "runtime \<Rightarrow> process_env \<Rightarrow> jsval \<Rightarrow> jsval \<Rightarrow> json io" where
  "setFeaturedImage rt ev postId mediaId =
     await (eval (ToString postId))
       (\<lambda>p. wpApiJson rt ev ''POST'' (''/wp-json/wp/v2/posts/'' @ p)
              (Some [(''featured_media'', mediaId)]))"

section \<open>The worker\<close>

record run_result =
  result_ok :: bool
  postId :: jsval
  mediaId :: jsval

definition JSON_stringify_result :: "run_result \<Rightarrow> string" where
  "JSON_stringify_result r =
     JSON_stringify_literal
       [(''ok'', Some (JBool (result_ok r))), (''postId'', postId r), (''mediaId'', mediaId r)]"

definition no_title :: jsval where
  "no_title = Some (JStr ''(no title)'')"

definition title_index :: "jsval \<Rightarrow> error + jsval" where
  \<comment> \<open>\<^verbatim>\<open>post.title.rendered || '(no title)'\<close>\<close>
  "title_index post =
     and_then (get_prop ''title'' post)
       (\<lambda>t. and_then (get_prop ''rendered'' t)
          (\<lambda>r. Inr (if truthy r then r else no_title)))"

definition title_part0 :: "jsval \<Rightarrow> error + jsval" where
  \<comment> \<open>\<^verbatim>\<open>(post.title && post.title.rendered) ? post.title.rendered : '(no title)'\<close>\<close>
  "title_part0 post =
     and_then (get_prop ''title'' post)
       (\<lambda>t. if truthy t
          then and_then (get_prop ''rendered'' t) (\<lambda>r. Inr (if truthy r then r else no_title))
          else Inr no_title)"

definition prompt_index :: "string \<Rightarrow> string" where
  "prompt_index title =
     ''Photo-realistic daytime image for a blog post titled '' @ [CHR 0x22] @ title @ [CHR 0x22] @ ''. ''
     @ ''Show a modern private hire (PHV) saloon (Toyota Prius, Skoda Octavia, Kia Ceed), ''
     @ ''RHD, on a Manchester UK street. No text, no people, no logos.''"

definition prompt_part0 :: "string \<Rightarrow> string" where
  "prompt_part0 title =
     ''Photo-realistic daytime image for a blog post titled '' @ [CHR 0x22] @ title @ [CHR 0x22] @ ''. ''
     @ ''Show a modern private hire (PHV) saloon (Toyota Prius, Skoda Octavia, Kia Ceed), ''
     @ ''right-hand drive, on a real Manchester UK street. No text, no people, no logos.''"

definition filename_now :: "runtime \<Rightarrow> string" where
  "filename_now rt = ''ai-taxi-'' @ show_nat (Date_now rt) @ ''.png''"

text \<open>
  The locals of \<^verbatim>\<open>runWorker\<close> between the fetch of the post and the image call: the
  title, \<^verbatim>\<open>postId\<close>, the logged line (it converts \<^verbatim>\<open>postId\<close> and the title to strings)
  and the prompt. The result is \<^verbatim>\<open>postId\<close> and the prompt.
\<close>

definition runWorker_prompt_index :: "jsval \<Rightarrow> error + (jsval \<times> string)" where
  "runWorker_prompt_index post =
     and_then (title_index post) (\<lambda>title.
     and_then (get_prop ''id'' post) (\<lambda>pid.
     and_then (ToString pid) (\<lambda>pid_text.
     and_then (ToString title) (\<lambda>title_text.
     Inr (pid, prompt_index title_text)))))"

definition runWorker_prompt_part0 :: "jsval \<Rightarrow> error + (jsval \<times> string)" where
  "runWorker_prompt_part0 post =
     and_then (title_part0 post) (\<lambda>title.
     and_then (get_prop ''id'' post) (\<lambda>pid.
     and_then (ToString pid) (\<lambda>pid_text.
     and_then (ToString title) (\<lambda>title_text.
     Inr (pid, prompt_part0 title_text)))))"

definition runWorker_index :: "runtime \<Rightarrow> process_env \<Rightarrow> run_result io" where
  "runWorker_index rt ev =
     await (getLatestPost_index rt ev) (\<lambda>post.
     await (eval (runWorker_prompt_index post)) (\<lambda>(pid, prompt).
     await (callOpenAIImage_index rt ev prompt) (\<lambda>image.
     await (uploadImageToWP_index rt ev image (filename_now rt)) (\<lambda>mid.
     await (eval (ToString mid)) (\<lambda>mid_text.
     await (setFeaturedImage rt ev pid mid) (\<lambda>updated.
     eval (Inr \<lparr>result_ok = True, postId = pid, mediaId = mid\<rparr>)))))))"

definition runWorker_part0 :: "runtime \<Rightarrow> process_env \<Rightarrow> run_result io" where
  "runWorker_part0 rt ev =
     await (getLatestPost_part0 rt ev) (\<lambda>post.
     await (eval (runWorker_prompt_part0 post)) (\<lambda>(pid, prompt).
     await (callOpenAIImage_part0 rt ev prompt) (\<lambda>image.
     await (uploadImageToWP_part0 rt ev image (filename_now rt)) (\<lambda>mid.
     await (eval (ToString mid)) (\<lambda>mid_text.
     await (setFeaturedImage rt ev pid mid) (\<lambda>updated.
     eval (Inr \<lparr>result_ok = True, postId = pid, mediaId = mid\<rparr>)))))))"

section \<open>The HTTP server\<close>

record reply =
  statusCode :: nat
  sent_headers :: "(string \<times> string) list"
  sent_body :: string

definition banner :: string where
  "banner = ''AI Image Worker running. Use /run?secret=YOUR_SECRET''"

text \<open>
  The request handler, given \<^verbatim>\<open>req.url\<close>. \<^verbatim>\<open>statusCode\<close> starts at 200; the
  \<^verbatim>\<open>catch\<close> block sets 500 and sends the message, with no header set before it.
\<close>

definition server_with ::
  "(runtime \<Rightarrow> process_env \<Rightarrow> run_result io) \<Rightarrow> runtime \<Rightarrow> process_env \<Rightarrow> string
     \<Rightarrow> trace \<Rightarrow> reply \<times> trace" where
  "server_with runWorker rt ev req_url h =
     (case URL_new rt req_url of
        Inl e \<Rightarrow> (\<lparr>statusCode = 500, sent_headers = [], sent_body = message e\<rparr>, h)
      | Inr urlObj \<Rightarrow>
          if pathname urlObj = ''/run'' then
            (if searchParams_get urlObj ''secret'' \<noteq> Some (WORKER_SECRET ev)
             then (\<lparr>statusCode = 403, sent_headers = [],
                    sent_body = ''Forbidden: bad secret''\<rparr>, h)
             else (case runWorker rt ev h of
                     (Inl e, h') \<Rightarrow>
                       (\<lparr>statusCode = 500, sent_headers = [], sent_body = message e\<rparr>, h')
                   | (Inr result, h') \<Rightarrow>
                       (\<lparr>statusCode = 200,
                         sent_headers = [(''Content-Type'', ''application/json'')],
                         sent_body = JSON_stringify_result result\<rparr>, h')))
          else (\<lparr>statusCode = 200, sent_headers = [(''Content-Type'', ''text/plain'')],
                 sent_body = banner\<rparr>, h))"

definition server_index :: "runtime \<Rightarrow> process_env \<Rightarrow> string \<Rightarrow> trace \<Rightarrow> reply \<times> trace" where
  "server_index = server_with runWorker_index"

definition server_part0 :: "runtime \<Rightarrow> process_env \<Rightarrow> string \<Rightarrow> trace \<Rightarrow> reply \<times> trace" where
  "server_part0 = server_with runWorker_part0"

section \<open>Vocabulary of the properties\<close>

text \<open>
  A write to the content API: a \<^verbatim>\<open>POST\<close> that carries the content API's credentials.
  The upload and the featured-image update are the two such requests of the program.
\<close>

definition content_write :: "runtime \<Rightarrow> process_env \<Rightarrow> request \<Rightarrow> bool" where
  "content_write rt ev r \<longleftrightarrow>
     method r = ''POST'' \<and> map_of (headers r) ''Authorization'' = Some (wpAuthHeader rt ev)"

text \<open>
  The nested image-URL field \<^verbatim>\<open>data.data[0].url\<close> of a generation response, read
  without any test on the way: \<open>None\<close> when the field or anything above it is missing.
\<close>

definition image_url_field :: "json \<Rightarrow> jsval" where
  "image_url_field data =
     (case get_prop ''data'' (Some data) of
        Inl e \<Rightarrow> None
      | Inr d \<Rightarrow>
          (case get_index 0 d of
             Inl e \<Rightarrow> None
           | Inr d0 \<Rightarrow> (case get_prop ''url'' d0 of Inl e \<Rightarrow> None | Inr u \<Rightarrow> u)))"

text \<open>
  \<open>sends P m\<close>: whatever the earlier requests were and however \<open>m\<close> ends, \<open>m\<close> only
  appends requests to the trace, and each request it appends satisfies \<open>P\<close>.
\<close>

definition sends :: "(request \<Rightarrow> bool) \<Rightarrow> 'a io \<Rightarrow> bool" where
  "sends P m \<longleftrightarrow>
     (\<forall>h r h'. m h = (r, h') \<longrightarrow> (\<exists>new. h' = h @ new \<and> (\<forall>q \<in> set new. P q)))"

section \<open>A scripted world for concrete runs\<close>

definition demo_env :: process_env where
  "demo_env =
     \<lparr>OPENAI_API_KEY = Some ''sk-demo'', WP_SITE_URL = Some ''https://blog.example/'',
      WP_USERNAME = Some ''bot'', WP_APP_PASSWORD = Some ''pw'', WORKER_SECRET_var = None\<rparr>"

definition doc_posts :: json where
  "doc_posts =
     JArr [JObj [(''id'', JNum 42),
                 (''title'', JObj [(''rendered'', JStr ''Best Cabs in Manchester'')])]]"

definition doc_posts_untitled :: json where
  "doc_posts_untitled = JArr [JObj [(''id'', JNum 42)]]"

definition doc_image_url :: json where
  "doc_image_url = JObj [(''data'', JArr [JObj [(''url'', JStr ''https://img.example/a.png'')]])]"

definition doc_image_url_empty :: json where
  "doc_image_url_empty = JObj [(''data'', JArr [JObj [(''url'', JStr [])]])]"

definition doc_image_inline :: json where
  "doc_image_inline = JObj [(''data'', JArr [JObj [(''b64_json'', JStr ''iVBORw0KGgo='')]])]"

definition doc_media :: json where
  "doc_media = JObj [(''id'', JNum 900)]"

definition doc_updated :: json where
  "doc_updated = JObj [(''id'', JNum 42), (''featured_media'', JNum 900)]"

definition doc_length_only :: json where
  "doc_length_only = JObj [(''length'', JNum 1)]"

definition demo_documents :: "json list" where
  "demo_documents =
     [doc_posts, doc_posts_untitled, doc_image_url, doc_image_url_empty, doc_image_inline,
      doc_media, doc_updated, doc_length_only, JObj [], JArr [], JNull]"

definition demo_parse :: "string \<Rightarrow> error + json" where
  \<comment> \<open>parses the texts of the documents above\<close>
  "demo_parse s =
     (case find (\<lambda>d. JSON_stringify d = s) demo_documents of
        Some d \<Rightarrow> Inr d
      | None \<Rightarrow> Inl (SyntaxError ''Unexpected token''))"

definition json_reply :: "nat \<Rightarrow> json \<Rightarrow> response" where
  "json_reply st d = \<lparr>status = st, content = JSON_stringify d\<rparr>"

definition demo_URL_new :: "string \<Rightarrow> error + url_obj" where
  \<comment> \<open>a path followed by at most one query parameter\<close>
  "demo_URL_new s =
     Inr \<lparr>pathname = takeWhile (\<lambda>c. c \<noteq> CHR ''?'') s,
          searchParams =
            (case dropWhile (\<lambda>c. c \<noteq> CHR ''?'') s of
               [] \<Rightarrow> []
             | c # q \<Rightarrow> [(takeWhile (\<lambda>c. c \<noteq> CHR ''='') q,
                           drop 1 (dropWhile (\<lambda>c. c \<noteq> CHR ''='') q))])\<rparr>"

record script =
  posts_reply :: response
  openai_reply :: response
  image_reply :: response
  media_reply :: response
  update_reply :: response

definition demo_fetch :: "script \<Rightarrow> request list \<Rightarrow> request \<Rightarrow> error + response" where
  "demo_fetch sc h req =
     Inr (if url req = ''https://api.openai.com/v1/images/generations'' then openai_reply sc
          else if url req = ''https://blog.example/wp-json/wp/v2/media'' then media_reply sc
          else if url req = ''https://blog.example'' @ posts_endpoint then posts_reply sc
          else if method req = ''GET'' then image_reply sc
          else update_reply sc)"

definition demo_runtime :: "script \<Rightarrow> runtime" where
  "demo_runtime sc =
     \<lparr>fetch = demo_fetch sc, JSON_parse = demo_parse, Date_now = 1700,
      URL_new = demo_URL_new, to_base64 = (\<lambda>s. ''Ym90OnB3''),
      from_base64 = (\<lambda>v. case v of Some (JStr s) \<Rightarrow> Inr (''decoded:'' @ s)
                          | _ \<Rightarrow> Inl (TypeError ''The first argument must be of type string''))\<rparr>"

definition happy_url :: script where
  "happy_url =
     \<lparr>posts_reply = json_reply 200 doc_posts, openai_reply = json_reply 200 doc_image_url,
      image_reply = \<lparr>status = 200, content = ''PNG-bytes''\<rparr>,
      media_reply = json_reply 201 doc_media, update_reply = json_reply 200 doc_updated\<rparr>"

definition happy_inline :: script where
  "happy_inline = happy_url\<lparr>openai_reply := json_reply 200 doc_image_inline\<rparr>"

text \<open>Worlds in which one of the calls fails.\<close>

definition posts_unavailable :: script where
  "posts_unavailable = happy_url\<lparr>posts_reply := \<lparr>status = 503, content = ''maintenance''\<rparr>\<rparr>"

definition openai_down :: script where
  "openai_down = happy_url\<lparr>openai_reply := \<lparr>status = 500, content = ''overloaded''\<rparr>\<rparr>"

definition update_refused :: script where
  "update_refused = happy_inline\<lparr>update_reply := \<lparr>status = 403, content = ''denied''\<rparr>\<rparr>"

text \<open>Worlds in which a call answers with status 2xx and an unusual body.\<close>

definition posts_not_a_list :: script where
  "posts_not_a_list = happy_inline\<lparr>posts_reply := json_reply 200 doc_length_only\<rparr>"

definition posts_null :: script where
  "posts_null = happy_inline\<lparr>posts_reply := json_reply 200 JNull\<rparr>"

definition posts_untitled :: script where
  "posts_untitled = happy_inline\<lparr>posts_reply := json_reply 200 doc_posts_untitled\<rparr>"

definition media_without_id :: script where
  "media_without_id = happy_inline\<lparr>media_reply := json_reply 201 (JObj [])\<rparr>"


definition image_url_empty :: script where
  "image_url_empty = happy_url\<lparr>openai_reply := json_reply 200 doc_image_url_empty\<rparr>"

definition image_gone :: script where
  "image_gone = happy_url\<lparr>image_reply := \<lparr>status = 404, content = ''gone''\<rparr>\<rparr>"

definition post42 :: json where
  "post42 = JObj [(''id'', JNum 42),
                  (''title'', JObj [(''rendered'', JStr ''Best Cabs in Manchester'')])]"

section \<open>Sequencing\<close>

lemma eval_apply [simp]: "eval r h = (r, h)"
  by (simp add: eval_def)

lemma await_Inl: "m h = (Inl e, h') \<Longrightarrow> await m f h = (Inl e, h')"
  by (simp add: await_def)

lemma await_Inr: "m h = (Inr x, h') \<Longrightarrow> await m f h = f x h'"
  by (simp add: await_def)

lemma await_eval_Inl [simp]: "await (eval (Inl e)) f h = (Inl e, h)"
  by (simp add: await_def)

lemma await_eval_Inr [simp]: "await (eval (Inr x)) f h = f x h"
  by (simp add: await_def)

lemma await_returns:
  assumes "await m f h = (Inr y, h')"
  obtains x h1 where "m h = (Inr x, h1)" and "f x h1 = (Inr y, h')"
  using assms by (auto simp: await_def split: prod.splits sum.splits)

lemma await_cases:
  assumes "await m f h = (r, h')"
  obtains (fails) e where "m h = (Inl e, h')" and "r = Inl e"
        | (goes_on) x h1 where "m h = (Inr x, h1)" and "f x h1 = (r, h')"
  using assms by (auto simp: await_def split: prod.splits sum.splits)

lemma and_then_Inl [simp]: "and_then (Inl e) f = Inl e"
  by (simp add: and_then_def)

lemma and_then_Inr [simp]: "and_then (Inr x) f = f x"
  by (simp add: and_then_def)

lemma and_then_returns:
  assumes "and_then r f = Inr y"
  obtains x where "r = Inr x" and "f x = Inr y"
  using assms by (cases r) auto

lemma server_with_forbidden:
  assumes "URL_new rt req_url = Inr u" and "pathname u = ''/run''"
    and "searchParams_get u ''secret'' \<noteq> Some (WORKER_SECRET ev)"
  shows "server_with W rt ev req_url h =
           (\<lparr>statusCode = 403, sent_headers = [], sent_body = ''Forbidden: bad secret''\<rparr>, h)"
  using assms by (simp add: server_with_def)

lemma server_with_banner:
  assumes "URL_new rt req_url = Inr u" and "pathname u \<noteq> ''/run''"
  shows "server_with W rt ev req_url h =
           (\<lparr>statusCode = 200, sent_headers = [(''Content-Type'', ''text/plain'')],
             sent_body = banner\<rparr>, h)"
  using assms by (simp add: server_with_def)

lemma server_with_error:
  assumes "URL_new rt req_url = Inr u" and "pathname u = ''/run''"
    and "searchParams_get u ''secret'' = Some (WORKER_SECRET ev)"
    and "W rt ev h = (Inl e, h')"
  shows "server_with W rt ev req_url h =
           (\<lparr>statusCode = 500, sent_headers = [], sent_body = message e\<rparr>, h')"
  using assms by (simp add: server_with_def)

lemma server_with_result:
  assumes "URL_new rt req_url = Inr u" and "pathname u = ''/run''"
    and "searchParams_get u ''secret'' = Some (WORKER_SECRET ev)"
    and "W rt ev h = (Inr r, h')"
  shows "server_with W rt ev req_url h =
           (\<lparr>statusCode = 200, sent_headers = [(''Content-Type'', ''application/json'')],
             sent_body = JSON_stringify_result r\<rparr>, h')"
  using assms by (simp add: server_with_def)

lemma runWorker_part0_returns:
  assumes "runWorker_part0 rt ev h = (Inr r, h')"
  shows "result_ok r"
  using assms unfolding runWorker_part0_def
  by (auto elim!: await_returns split: prod.splits)

lemma runWorker_index_returns:
  assumes "runWorker_index rt ev h = (Inr r, h')"
  shows "result_ok r"
  using assms unfolding runWorker_index_def
  by (auto elim!: await_returns split: prod.splits)

subsection \<open>Where a run stops\<close>

lemma runWorker_part0_stops_at_post:
  assumes "getLatestPost_part0 rt ev h = (Inl e, h1)"
  shows "runWorker_part0 rt ev h = (Inl e, h1)"
  using assms by (simp add: runWorker_part0_def await_Inl)

lemma runWorker_part0_stops_at_prompt:
  assumes "getLatestPost_part0 rt ev h = (Inr post, h1)"
    and "runWorker_prompt_part0 post = Inl e"
  shows "runWorker_part0 rt ev h = (Inl e, h1)"
  using assms by (simp add: runWorker_part0_def await_Inr)

lemma runWorker_part0_stops_at_image:
  assumes "getLatestPost_part0 rt ev h = (Inr post, h1)"
    and "runWorker_prompt_part0 post = Inr (pid, prompt)"
    and "callOpenAIImage_part0 rt ev prompt h1 = (Inl e, h2)"
  shows "runWorker_part0 rt ev h = (Inl e, h2)"
  using assms by (simp add: runWorker_part0_def await_Inr await_Inl)

lemma runWorker_part0_stops_at_upload:
  assumes "getLatestPost_part0 rt ev h = (Inr post, h1)"
    and "runWorker_prompt_part0 post = Inr (pid, prompt)"
    and "callOpenAIImage_part0 rt ev prompt h1 = (Inr img, h2)"
    and "uploadImageToWP_part0 rt ev img (filename_now rt) h2 = (Inl e, h3)"
  shows "runWorker_part0 rt ev h = (Inl e, h3)"
  using assms by (simp add: runWorker_part0_def await_Inr await_Inl)

lemma runWorker_part0_stops_at_log:
  assumes "getLatestPost_part0 rt ev h = (Inr post, h1)"
    and "runWorker_prompt_part0 post = Inr (pid, prompt)"
    and "callOpenAIImage_part0 rt ev prompt h1 = (Inr img, h2)"
    and "uploadImageToWP_part0 rt ev img (filename_now rt) h2 = (Inr mid, h3)"
    and "ToString mid = Inl e"
  shows "runWorker_part0 rt ev h = (Inl e, h3)"
  using assms by (simp add: runWorker_part0_def await_Inr await_Inl)

lemma runWorker_part0_stops_at_update:
  assumes "getLatestPost_part0 rt ev h = (Inr post, h1)"
    and "runWorker_prompt_part0 post = Inr (pid, prompt)"
    and "callOpenAIImage_part0 rt ev prompt h1 = (Inr img, h2)"
    and "uploadImageToWP_part0 rt ev img (filename_now rt) h2 = (Inr mid, h3)"
    and "ToString mid = Inr mid_text"
    and "setFeaturedImage rt ev pid mid h3 = (Inl e, h4)"
  shows "runWorker_part0 rt ev h = (Inl e, h4)"
  using assms by (simp add: runWorker_part0_def await_Inr await_Inl)

lemma runWorker_part0_completes:
  assumes "getLatestPost_part0 rt ev h = (Inr post, h1)"
    and "runWorker_prompt_part0 post = Inr (pid, prompt)"
    and "callOpenAIImage_part0 rt ev prompt h1 = (Inr img, h2)"
    and "uploadImageToWP_part0 rt ev img (filename_now rt) h2 = (Inr mid, h3)"
    and "ToString mid = Inr mid_text"
    and "setFeaturedImage rt ev pid mid h3 = (Inr updated, h4)"
  shows "runWorker_part0 rt ev h = (Inr \<lparr>result_ok = True, postId = pid, mediaId = mid\<rparr>, h4)"
  using assms by (simp add: runWorker_part0_def await_Inr)

lemma runWorker_index_stops_at_post:
  assumes "getLatestPost_index rt ev h = (Inl e, h1)"
  shows "runWorker_index rt ev h = (Inl e, h1)"
  using assms by (simp add: runWorker_index_def await_Inl)

lemma runWorker_index_stops_at_prompt:
  assumes "getLatestPost_index rt ev h = (Inr post, h1)"
    and "runWorker_prompt_index post = Inl e"
  shows "runWorker_index rt ev h = (Inl e, h1)"
  using assms by (simp add: runWorker_index_def await_Inr)

lemma runWorker_index_stops_at_image:
  assumes "getLatestPost_index rt ev h = (Inr post, h1)"
    and "runWorker_prompt_index post = Inr (pid, prompt)"
    and "callOpenAIImage_index rt ev prompt h1 = (Inl e, h2)"
  shows "runWorker_index rt ev h = (Inl e, h2)"
  using assms by (simp add: runWorker_index_def await_Inr await_Inl)

lemma runWorker_index_stops_at_upload:
  assumes "getLatestPost_index rt ev h = (Inr post, h1)"
    and "runWorker_prompt_index post = Inr (pid, prompt)"
    and "callOpenAIImage_index rt ev prompt h1 = (Inr img, h2)"
    and "uploadImageToWP_index rt ev img (filename_now rt) h2 = (Inl e, h3)"
  shows "runWorker_index rt ev h = (Inl e, h3)"
  using assms by (simp add: runWorker_index_def await_Inr await_Inl)

lemma runWorker_index_stops_at_log:
  assumes "getLatestPost_index rt ev h = (Inr post, h1)"
    and "runWorker_prompt_index post = Inr (pid, prompt)"
    and "callOpenAIImage_index rt ev prompt h1 = (Inr img, h2)"
    and "uploadImageToWP_index rt ev img (filename_now rt) h2 = (Inr mid, h3)"
    and "ToString mid = Inl e"
  shows "runWorker_index rt ev h = (Inl e, h3)"
  using assms by (simp add: runWorker_index_def await_Inr await_Inl)

lemma runWorker_index_stops_at_update:
  assumes "getLatestPost_index rt ev h = (Inr post, h1)"
    and "runWorker_prompt_index post = Inr (pid, prompt)"
    and "callOpenAIImage_index rt ev prompt h1 = (Inr img, h2)"
    and "uploadImageToWP_index rt ev img (filename_now rt) h2 = (Inr mid, h3)"
    and "ToString mid = Inr mid_text"
    and "setFeaturedImage rt ev pid mid h3 = (Inl e, h4)"
  shows "runWorker_index rt ev h = (Inl e, h4)"
  using assms by (simp add: runWorker_index_def await_Inr await_Inl)

lemma runWorker_index_completes:
  assumes "getLatestPost_index rt ev h = (Inr post, h1)"
    and "runWorker_prompt_index post = Inr (pid, prompt)"
    and "callOpenAIImage_index rt ev prompt h1 = (Inr img, h2)"
    and "uploadImageToWP_index rt ev img (filename_now rt) h2 = (Inr mid, h3)"
    and "ToString mid = Inr mid_text"
    and "setFeaturedImage rt ev pid mid h3 = (Inr updated, h4)"
  shows "runWorker_index rt ev h = (Inr \<lparr>result_ok = True, postId = pid, mediaId = mid\<rparr>, h4)"
  using assms by (simp add: runWorker_index_def await_Inr)

subsection \<open>What each operation sends\<close>

lemma sends_eval [simp]: "sends P (eval r)"
  by (simp add: sends_def)

lemma sends_do_fetch: "P req \<Longrightarrow> sends P (do_fetch rt req)"
  by (simp add: sends_def do_fetch_def)

lemma sends_await:
  assumes "sends P m" and "\<And>x. sends P (f x)"
  shows "sends P (await m f)"
  unfolding sends_def
proof (intro allI impI)
  fix h r h'
  assume run: "await m f h = (r, h')"
  from run show "\<exists>new. h' = h @ new \<and> (\<forall>q \<in> set new. P q)"
  proof (cases rule: await_cases)
    case (fails e)
    with assms(1) show ?thesis by (simp add: sends_def)
  next
    case (goes_on x h1)
    from assms(1) goes_on(1) obtain n1 where n1: "h1 = h @ n1" "\<forall>q \<in> set n1. P q"
      unfolding sends_def by blast
    from assms(2) [of x] goes_on(2) obtain n2 where n2: "h' = h1 @ n2" "\<forall>q \<in> set n2. P q"
      unfolding sends_def by blast
    from n1 n2 have "h' = h @ (n1 @ n2) \<and> (\<forall>q \<in> set (n1 @ n2). P q)" by auto
    then show ?thesis by blast
  qed
qed

lemma sends_if:
  "(c \<Longrightarrow> sends P m) \<Longrightarrow> (\<not> c \<Longrightarrow> sends P n) \<Longrightarrow> sends P (if c then m else n)"
  by simp

lemma sends_weaken: "sends P m \<Longrightarrow> (\<And>q. P q \<Longrightarrow> Q q) \<Longrightarrow> sends Q m"
  unfolding sends_def by blast

lemma sendsD:
  assumes "sends P m" and "m h = (r, h')"
  shows "\<forall>q \<in> set (drop (length h) h'). P q" and "take (length h) h' = h"
  using assms unfolding sends_def by fastforce+

lemma wpApiJson_sends:
  "sends (\<lambda>q. method q = meth \<and> map_of (headers q) ''Authorization'' = Some (wpAuthHeader rt ev))
     (wpApiJson rt ev meth endpoint bdy)"
  unfolding wpApiJson_def
  by (intro sends_await sends_do_fetch sends_if sends_eval) simp

lemma getLatestPost_part0_sends: "sends (\<lambda>q. method q = ''GET'') (getLatestPost_part0 rt ev)"
  unfolding getLatestPost_part0_def
  by (intro sends_await sends_if sends_eval sends_weaken [OF wpApiJson_sends]) simp

lemma getLatestPost_index_sends: "sends (\<lambda>q. method q = ''GET'') (getLatestPost_index rt ev)"
  unfolding getLatestPost_index_def
  by (intro sends_await sends_if sends_eval sends_weaken [OF wpApiJson_sends]) simp

lemma openai_request_no_write: "\<not> content_write rt ev (openai_request ev props)"
  by (simp add: content_write_def openai_request_def wpAuthHeader_def)

lemma download_request_no_write: "\<not> content_write rt ev (download_request u)"
  by (simp add: content_write_def download_request_def)

lemma media_request_write: "content_write rt ev (media_request rt ev u buffer filename)"
  by (simp add: content_write_def media_request_def)

lemma callOpenAIImage_part0_sends:
  "sends (\<lambda>q. \<not> content_write rt ev q \<and> (method q = ''GET'' \<or> method q = ''POST''))
     (callOpenAIImage_part0 rt ev prompt)"
  unfolding callOpenAIImage_part0_def
  by (intro sends_await sends_do_fetch sends_if sends_eval)
     (simp_all add: openai_request_no_write download_request_no_write,
      simp_all add: openai_request_def download_request_def)

lemma callOpenAIImage_index_sends:
  "sends (\<lambda>q. \<not> content_write rt ev q \<and> (method q = ''GET'' \<or> method q = ''POST''))
     (callOpenAIImage_index rt ev prompt)"
  unfolding callOpenAIImage_index_def
  by (intro sends_await sends_do_fetch sends_if sends_eval)
     (simp_all add: openai_request_no_write, simp_all add: openai_request_def)

lemma uploadImageToWP_part0_sends:
  "sends (content_write rt ev) (uploadImageToWP_part0 rt ev buffer filename)"
  unfolding uploadImageToWP_part0_def
  by (intro sends_await sends_do_fetch sends_if sends_eval media_request_write)

lemma uploadImageToWP_index_sends:
  "sends (content_write rt ev) (uploadImageToWP_index rt ev buffer filename)"
  unfolding uploadImageToWP_index_def
  by (intro sends_await sends_do_fetch sends_if sends_eval media_request_write)

lemma setFeaturedImage_sends: "sends (content_write rt ev) (setFeaturedImage rt ev pid mid)"
  unfolding setFeaturedImage_def
  by (intro sends_await sends_eval sends_weaken [OF wpApiJson_sends])
     (simp add: content_write_def)

lemma content_write_POST: "content_write rt ev q \<Longrightarrow> method q = ''POST''"
  by (simp add: content_write_def)

lemma runWorker_part0_sends:
  "sends (\<lambda>q. method q = ''GET'' \<or> method q = ''POST'') (runWorker_part0 rt ev)"
  unfolding runWorker_part0_def
  apply (intro sends_await sends_eval)
       apply (rule sends_weaken [OF getLatestPost_part0_sends], simp)
      apply (clarsimp split: prod.splits)
  apply (intro sends_await sends_eval allI impI)
  apply (rule sends_weaken [OF callOpenAIImage_part0_sends], simp)
  apply (rule sends_weaken [OF uploadImageToWP_part0_sends], simp add: content_write_POST)
  apply (rule sends_weaken [OF setFeaturedImage_sends], simp add: content_write_POST)
  done

lemma runWorker_index_sends:
  "sends (\<lambda>q. method q = ''GET'' \<or> method q = ''POST'') (runWorker_index rt ev)"
  unfolding runWorker_index_def
  apply (intro sends_await sends_eval)
       apply (rule sends_weaken [OF getLatestPost_index_sends], simp)
      apply (clarsimp split: prod.splits)
  apply (intro sends_await sends_eval allI impI)
  apply (rule sends_weaken [OF callOpenAIImage_index_sends], simp)
  apply (rule sends_weaken [OF uploadImageToWP_index_sends], simp add: content_write_POST)
  apply (rule sends_weaken [OF setFeaturedImage_sends], simp add: content_write_POST)
  done

lemma GET_no_write: "method q = ''GET'' \<Longrightarrow> \<not> content_write rt ev q"
  by (simp add: content_write_def)

lemma no_write_before_upload_part0:
  assumes "getLatestPost_part0 rt ev h = (r1, h1)"
    and "callOpenAIImage_part0 rt ev prompt h1 = (r2, h2)"
  shows "\<forall>q \<in> set (drop (length h) h2). \<not> content_write rt ev q"
proof -
  from getLatestPost_part0_sends assms(1) obtain n1
    where n1: "h1 = h @ n1" "\<forall>q \<in> set n1. method q = ''GET''"
    unfolding sends_def by blast
  from callOpenAIImage_part0_sends assms(2) obtain n2
    where n2: "h2 = h1 @ n2" "\<forall>q \<in> set n2. \<not> content_write rt ev q"
    unfolding sends_def by blast
  from n1 n2 show ?thesis by (auto simp: GET_no_write)
qed

lemma no_write_before_upload_index:
  assumes "getLatestPost_index rt ev h = (r1, h1)"
    and "callOpenAIImage_index rt ev prompt h1 = (r2, h2)"
  shows "\<forall>q \<in> set (drop (length h) h2). \<not> content_write rt ev q"
proof -
  from getLatestPost_index_sends assms(1) obtain n1
    where n1: "h1 = h @ n1" "\<forall>q \<in> set n1. method q = ''GET''"
    unfolding sends_def by blast
  from callOpenAIImage_index_sends assms(2) obtain n2
    where n2: "h2 = h1 @ n2" "\<forall>q \<in> set n2. \<not> content_write rt ev q"
    unfolding sends_def by blast
  from n1 n2 show ?thesis by (auto simp: GET_no_write)
qed

lemma run_methods_part0:
  "\<forall>q \<in> set (drop (length h) (snd (runWorker_part0 rt ev h))). method q = ''GET'' \<or> method q = ''POST''"
  using sendsD(1) [OF runWorker_part0_sends, of rt ev h "fst (runWorker_part0 rt ev h)"
      "snd (runWorker_part0 rt ev h)"]
  by simp

lemma run_methods_index:
  "\<forall>q \<in> set (drop (length h) (snd (runWorker_index rt ev h))). method q = ''GET'' \<or> method q = ''POST''"
  using sendsD(1) [OF runWorker_index_sends, of rt ev h "fst (runWorker_index rt ev h)"
      "snd (runWorker_index rt ev h)"]
  by simp

lemma runWorker_prompt_part0_id:
  "runWorker_prompt_part0 post = Inr (pid, prompt) \<Longrightarrow> get_prop ''id'' post = Inr pid"
  unfolding runWorker_prompt_part0_def by (auto elim!: and_then_returns)

lemma runWorker_prompt_index_id:
  "runWorker_prompt_index post = Inr (pid, prompt) \<Longrightarrow> get_prop ''id'' post = Inr pid"
  unfolding runWorker_prompt_index_def by (auto elim!: and_then_returns)

subsection \<open>The guarded operations of \<^verbatim>\<open>part_000\<close>\<close>

lemma getLatestPost_part0_result:
  assumes "wpApiJson rt ev ''GET'' posts_endpoint None h = (Inr posts, h1)"
  shows "getLatestPost_part0 rt ev h =
           (case posts of JArr (x # xs) \<Rightarrow> Inr (Some x) | _ \<Rightarrow> Inl (Error ''No posts found''), h1)"
  using assms
  by (cases posts rule: json.exhaust)
     (auto simp: getLatestPost_part0_def await_Inr split: list.splits)

lemma getLatestPost_index_result:
  assumes "wpApiJson rt ev ''GET'' posts_endpoint None h = (Inr posts, h1)"
  shows "getLatestPost_index rt ev h =
           (case get_prop ''length'' (Some posts) of
              Inl e \<Rightarrow> Inl e
            | Inr len \<Rightarrow> if truthy len then get_index 0 (Some posts)
                         else Inl (Error ''No posts found''), h1)"
  using assms
  by (auto simp: getLatestPost_index_def await_Inr await_def split: sum.splits)

lemma title_part0_missing:
  assumes "map_of kvs ''title'' = None"
  shows "title_part0 (Some (JObj kvs)) = Inr (Some (JStr ''(no title)''))"
  using assms by (simp add: title_part0_def no_title_def)

lemma title_part0_rendered:
  assumes "map_of kvs ''title'' = Some (JObj t)"
  shows "title_part0 (Some (JObj kvs)) =
           Inr (case map_of t ''rendered'' of
                  None \<Rightarrow> Some (JStr ''(no title)'')
                | Some (JStr s) \<Rightarrow> if s = [] then Some (JStr ''(no title)'') else Some (JStr s)
                | Some v \<Rightarrow> if truthy (Some v) then Some v else Some (JStr ''(no title)''))"
  using assms
  by (auto simp: title_part0_def no_title_def split: option.splits json.splits)

lemma title_index_rendered:
  assumes "map_of kvs ''title'' = Some (JObj t)"
  shows "title_index (Some (JObj kvs)) =
           Inr (case map_of t ''rendered'' of
                  None \<Rightarrow> Some (JStr ''(no title)'')
                | Some (JStr s) \<Rightarrow> if s = [] then Some (JStr ''(no title)'') else Some (JStr s)
                | Some v \<Rightarrow> if truthy (Some v) then Some v else Some (JStr ''(no title)''))"
  using assms
  by (auto simp: title_index_def no_title_def split: option.splits json.splits)

lemma title_index_missing:
  assumes "map_of kvs ''title'' = None"
  shows "title_index (Some (JObj kvs)) = Inl (cannot_read ''undefined'' ''rendered'')"
  using assms by (simp add: title_index_def)

lemma prompt_part0_contains: "\<exists>pre post. prompt_part0 title = pre @ title @ post"
  unfolding prompt_part0_def by (metis append.assoc)

lemma prompt_index_contains: "\<exists>pre post. prompt_index title = pre @ title @ post"
  unfolding prompt_index_def by (metis append.assoc)

lemma uploadImageToWP_part0_result:
  assumes "site_url ev ''/wp-json/wp/v2/media'' = Inr u"
    and "fetch rt h (media_request rt ev u buffer filename) = Inr res"
    and "ok res" and "JSON_parse rt (content res) = Inr (JObj kvs)"
  shows "uploadImageToWP_part0 rt ev buffer filename h =
           (if truthy (map_of kvs ''id'') then Inr (map_of kvs ''id'')
            else Inl (Error ''Media upload missing id''),
            h @ [media_request rt ev u buffer filename])"
  using assms by (simp add: uploadImageToWP_part0_def do_fetch_def await_def)

lemma uploadImageToWP_index_result:
  assumes "site_url ev ''/wp-json/wp/v2/media'' = Inr u"
    and "fetch rt h (media_request rt ev u buffer filename) = Inr res"
    and "ok res" and "JSON_parse rt (content res) = Inr (JObj kvs)"
  shows "uploadImageToWP_index rt ev buffer filename h =
           (Inr (map_of kvs ''id''), h @ [media_request rt ev u buffer filename])"
  using assms by (simp add: uploadImageToWP_index_def do_fetch_def await_def)

lemma upload_not_ok:
  assumes "site_url ev ''/wp-json/wp/v2/media'' = Inr u"
    and "fetch rt h (media_request rt ev u buffer filename) = Inr res"
    and "\<not> ok res"
  shows "uploadImageToWP_part0 rt ev buffer filename h =
           (Inl (Error (''WP media error '' @ show_nat (status res) @ '': '' @ content res)),
            h @ [media_request rt ev u buffer filename])"
    and "uploadImageToWP_index rt ev buffer filename h =
           (Inl (Error (''WP media error '' @ show_nat (status res) @ '': '' @ content res)),
            h @ [media_request rt ev u buffer filename])"
  using assms
  by (simp_all add: uploadImageToWP_part0_def uploadImageToWP_index_def do_fetch_def await_def
      media_error_def)

subsection \<open>The guard on the image URL\<close>

lemma get_prop_truthy: "truthy v \<Longrightarrow> \<exists>w. get_prop k v = Inr w"
  by (cases "(k, v)" rule: get_prop.cases) auto

lemma get_index_truthy: "truthy v \<Longrightarrow> \<exists>w. get_index i v = Inr w"
  by (cases "(i, v)" rule: get_index.cases) auto

lemma get_prop_falsy:
  "\<not> truthy v \<Longrightarrow> k \<noteq> ''length'' \<Longrightarrow> get_prop k v = Inr w \<Longrightarrow> w = None"
  by (cases "(k, v)" rule: get_prop.cases) auto

lemma get_index_falsy: "\<not> truthy v \<Longrightarrow> get_index i v = Inr w \<Longrightarrow> w = None"
  by (cases "(i, v)" rule: get_index.cases) auto

lemma get_prop_undefined: "\<exists>e. get_prop k None = Inl e"
  by simp

lemma image_url_part0_eq:
  assumes "data \<noteq> JNull"
  shows "image_url_part0 data =
           (if truthy (image_url_field data) then Inr (image_url_field data)
            else Inl (Error ''OpenAI response missing image URL''))"
proof -
  from assms obtain d where d: "get_prop ''data'' (Some data) = Inr d"
    by (cases data) auto
  show ?thesis
  proof (cases "truthy d")
    case False
    have "image_url_field data = None"
    proof (cases "get_index 0 d")
      case (Inl e)
      with d show ?thesis by (simp add: image_url_field_def)
    next
      case (Inr d0)
      with False have "d0 = None" by (rule get_index_falsy)
      with d Inr show ?thesis by (simp add: image_url_field_def)
    qed
    with d False show ?thesis by (simp add: image_url_part0_def)
  next
    case True
    then obtain d0 where d0: "get_index 0 d = Inr d0"
      using get_index_truthy by blast
    show ?thesis
    proof (cases "truthy d0")
      case False
      have "image_url_field data = None"
      proof (cases "get_prop ''url'' d0")
        case (Inl e)
        with d d0 show ?thesis by (simp add: image_url_field_def)
      next
        case (Inr u)
        have "u = None" using get_prop_falsy [OF False _ Inr] by simp
        with d d0 Inr show ?thesis by (simp add: image_url_field_def)
      qed
      with d d0 True False show ?thesis by (simp add: image_url_part0_def)
    next
      case d0_truthy: True
      then obtain u where u: "get_prop ''url'' d0 = Inr u"
        using get_prop_truthy by blast
      with d d0 have "image_url_field data = u" by (simp add: image_url_field_def)
      with d d0 u True d0_truthy show ?thesis by (simp add: image_url_part0_def)
    qed
  qed
qed

section \<open>The trigger listener\<close>

text \<open>
  Claim C1. A request whose path is \<^verbatim>\<open>/run\<close> and whose \<^verbatim>\<open>secret\<close> parameter is not the
  configured secret (a missing parameter reads as \<^verbatim>\<open>null\<close>, here \<open>None\<close>) is answered
  with status 403, and nothing is sent: the trace of requests is the one the handler
  started with. The answer is the same whatever the pipeline is (\<open>server_with W\<close> for
  every \<open>W\<close>), so the pipeline is not run. Both files.
\<close>

theorem C1_wrong_secret_forbidden:
  assumes "URL_new rt req_url = Inr u"
    and "pathname u = ''/run''"
    and "searchParams_get u ''secret'' \<noteq> Some (WORKER_SECRET ev)"
  shows "server_index rt ev req_url h =
           (\<lparr>statusCode = 403, sent_headers = [], sent_body = ''Forbidden: bad secret''\<rparr>, h)
       \<and> server_part0 rt ev req_url h =
           (\<lparr>statusCode = 403, sent_headers = [], sent_body = ''Forbidden: bad secret''\<rparr>, h)
       \<and> (\<forall>W. server_with W rt ev req_url h =
           (\<lparr>statusCode = 403, sent_headers = [], sent_body = ''Forbidden: bad secret''\<rparr>, h))"
  using assms by (simp add: server_index_def server_part0_def server_with_forbidden)

theorem C1_wrong_secret_forbidden_witness:
  "server_index (demo_runtime happy_inline) demo_env ''/run?secret=guess'' [] =
     (\<lparr>statusCode = 403, sent_headers = [], sent_body = ''Forbidden: bad secret''\<rparr>, [])
   \<and> server_part0 (demo_runtime happy_url) demo_env ''/run'' [] =
     (\<lparr>statusCode = 403, sent_headers = [], sent_body = ''Forbidden: bad secret''\<rparr>, [])"
proof -
  have a: "URL_new (demo_runtime happy_inline) ''/run?secret=guess'' =
             Inr \<lparr>pathname = ''/run'', searchParams = [(''secret'', ''guess'')]\<rparr>"
    by (simp add: demo_runtime_def demo_URL_new_def)
  have b: "URL_new (demo_runtime happy_url) ''/run'' =
             Inr \<lparr>pathname = ''/run'', searchParams = []\<rparr>"
    by (simp add: demo_runtime_def demo_URL_new_def)
  have s: "WORKER_SECRET demo_env = ''changeme''"
    by (simp add: WORKER_SECRET_def demo_env_def)
  from C1_wrong_secret_forbidden [OF a, of demo_env "[]"]
       C1_wrong_secret_forbidden [OF b, of demo_env "[]"]
  show ?thesis by (simp add: searchParams_get_def s)
qed

text \<open>
  Claim C10. The secret is only looked at for the exact path \<^verbatim>\<open>/run\<close>. A request with
  any other path (\<^verbatim>\<open>/run/\<close>, \<^verbatim>\<open>/RUN\<close>, ...) is answered with status 200 and the
  banner, whatever its query parameters are and whatever the pipeline is, and nothing
  is sent. Both files.
\<close>

theorem C10_other_paths_get_banner:
  assumes "URL_new rt req_url = Inr u" and "pathname u \<noteq> ''/run''"
  shows "server_index rt ev req_url h =
           (\<lparr>statusCode = 200, sent_headers = [(''Content-Type'', ''text/plain'')],
             sent_body = ''AI Image Worker running. Use /run?secret=YOUR_SECRET''\<rparr>, h)
       \<and> server_part0 rt ev req_url h =
           (\<lparr>statusCode = 200, sent_headers = [(''Content-Type'', ''text/plain'')],
             sent_body = ''AI Image Worker running. Use /run?secret=YOUR_SECRET''\<rparr>, h)
       \<and> (\<forall>W. server_with W rt ev req_url h =
           (\<lparr>statusCode = 200, sent_headers = [(''Content-Type'', ''text/plain'')],
             sent_body = ''AI Image Worker running. Use /run?secret=YOUR_SECRET''\<rparr>, h))"
  using assms server_with_banner [OF assms]
  by (simp add: server_index_def server_part0_def banner_def)

theorem C10_other_paths_get_banner_witness:
  "server_index (demo_runtime happy_inline) demo_env ''/run/?secret=changeme'' [] =
     (\<lparr>statusCode = 200, sent_headers = [(''Content-Type'', ''text/plain'')],
       sent_body = ''AI Image Worker running. Use /run?secret=YOUR_SECRET''\<rparr>, [])
   \<and> server_part0 (demo_runtime happy_url) demo_env ''/RUN?secret=wrong'' [] =
     (\<lparr>statusCode = 200, sent_headers = [(''Content-Type'', ''text/plain'')],
       sent_body = ''AI Image Worker running. Use /run?secret=YOUR_SECRET''\<rparr>, [])"
proof -
  have a: "URL_new (demo_runtime happy_inline) ''/run/?secret=changeme'' =
             Inr \<lparr>pathname = ''/run/'', searchParams = [(''secret'', ''changeme'')]\<rparr>"
    by (simp add: demo_runtime_def demo_URL_new_def)
  have b: "URL_new (demo_runtime happy_url) ''/RUN?secret=wrong'' =
             Inr \<lparr>pathname = ''/RUN'', searchParams = [(''secret'', ''wrong'')]\<rparr>"
    by (simp add: demo_runtime_def demo_URL_new_def)
  from C10_other_paths_get_banner [OF a, of demo_env "[]"]
       C10_other_paths_get_banner [OF b, of demo_env "[]"]
  show ?thesis by simp
qed

section \<open>The pipeline\<close>

text \<open>
  Claim C9. A result that \<^verbatim>\<open>runWorker\<close> returns has \<^verbatim>\<open>ok\<close> equal to \<^verbatim>\<open>true\<close>; a run that
  fails returns no result at all (\<open>Inl\<close>). Both files.
\<close>

theorem C9_result_ok_always_true:
  "(runWorker_index rt ev h = (Inr r, h') \<longrightarrow> result_ok r)
   \<and> (runWorker_part0 rt ev h = (Inr r, h') \<longrightarrow> result_ok r)"
  by (blast intro: runWorker_index_returns runWorker_part0_returns)

theorem C9_result_ok_always_true_witness:
  "fst (runWorker_part0 (demo_runtime happy_url) demo_env []) =
     Inr \<lparr>result_ok = True, postId = Some (JNum 42), mediaId = Some (JNum 900)\<rparr>
   \<and> fst (runWorker_index (demo_runtime happy_inline) demo_env []) =
     Inr \<lparr>result_ok = True, postId = Some (JNum 42), mediaId = Some (JNum 900)\<rparr>
   \<and> result_ok \<lparr>result_ok = True, postId = Some (JNum 42), mediaId = Some (JNum 900)\<rparr>"
proof -
  let ?r = "\<lparr>result_ok = True, postId = Some (JNum 42), mediaId = Some (JNum 900)\<rparr>"
  have a: "fst (runWorker_part0 (demo_runtime happy_url) demo_env []) = Inr ?r"
    by code_simp
  have b: "fst (runWorker_index (demo_runtime happy_inline) demo_env []) = Inr ?r"
    by code_simp
  from a have "runWorker_part0 (demo_runtime happy_url) demo_env [] =
      (Inr ?r, snd (runWorker_part0 (demo_runtime happy_url) demo_env []))"
    by (simp add: prod_eq_iff)
  from C9_result_ok_always_true [THEN conjunct2, rule_format, OF this] a b
  show ?thesis by blast
qed

text \<open>
  Claim C3. The calls are made one after the other and each one gates the next. Where
  the image call fails, the run ends with that error in the trace the image call left:
  nothing is sent after it, and no request of the run is a write to the content API
  (no upload, no featured-image update). The same holds where the fetch of the post,
  the upload or the featured-image update fails: the run ends with the error and the
  trace of the failed call. No run ever sends a request other than a \<^verbatim>\<open>GET\<close> or a
  \<^verbatim>\<open>POST\<close>, so nothing uploaded is deleted again. Both files.
\<close>

theorem C3_each_call_gates_the_next:
  "(getLatestPost_part0 rt ev h = (Inr post, h1)
      \<and> runWorker_prompt_part0 post = Inr (pid, prompt)
      \<and> callOpenAIImage_part0 rt ev prompt h1 = (Inl e, h2)
    \<longrightarrow> runWorker_part0 rt ev h = (Inl e, h2)
        \<and> (\<forall>q \<in> set (drop (length h) h2). \<not> content_write rt ev q))
   \<and> (getLatestPost_index rt ev h = (Inr post, h1)
      \<and> runWorker_prompt_index post = Inr (pid, prompt)
      \<and> callOpenAIImage_index rt ev prompt h1 = (Inl e, h2)
    \<longrightarrow> runWorker_index rt ev h = (Inl e, h2)
        \<and> (\<forall>q \<in> set (drop (length h) h2). \<not> content_write rt ev q))
   \<and> (getLatestPost_part0 rt ev h = (Inl e, h1) \<longrightarrow> runWorker_part0 rt ev h = (Inl e, h1))
   \<and> (getLatestPost_index rt ev h = (Inl e, h1) \<longrightarrow> runWorker_index rt ev h = (Inl e, h1))
   \<and> (getLatestPost_part0 rt ev h = (Inr post, h1)
      \<and> runWorker_prompt_part0 post = Inr (pid, prompt)
      \<and> callOpenAIImage_part0 rt ev prompt h1 = (Inr img, h2)
      \<and> uploadImageToWP_part0 rt ev img (filename_now rt) h2 = (Inl e, h3)
    \<longrightarrow> runWorker_part0 rt ev h = (Inl e, h3))
   \<and> (getLatestPost_index rt ev h = (Inr post, h1)
      \<and> runWorker_prompt_index post = Inr (pid, prompt)
      \<and> callOpenAIImage_index rt ev prompt h1 = (Inr img, h2)
      \<and> uploadImageToWP_index rt ev img (filename_now rt) h2 = (Inl e, h3)
    \<longrightarrow> runWorker_index rt ev h = (Inl e, h3))
   \<and> (getLatestPost_part0 rt ev h = (Inr post, h1)
      \<and> runWorker_prompt_part0 post = Inr (pid, prompt)
      \<and> callOpenAIImage_part0 rt ev prompt h1 = (Inr img, h2)
      \<and> uploadImageToWP_part0 rt ev img (filename_now rt) h2 = (Inr mid, h3)
      \<and> ToString mid = Inr mid_text
      \<and> setFeaturedImage rt ev pid mid h3 = (Inl e, h4)
    \<longrightarrow> runWorker_part0 rt ev h = (Inl e, h4))
   \<and> (getLatestPost_index rt ev h = (Inr post, h1)
      \<and> runWorker_prompt_index post = Inr (pid, prompt)
      \<and> callOpenAIImage_index rt ev prompt h1 = (Inr img, h2)
      \<and> uploadImageToWP_index rt ev img (filename_now rt) h2 = (Inr mid, h3)
      \<and> ToString mid = Inr mid_text
      \<and> setFeaturedImage rt ev pid mid h3 = (Inl e, h4)
    \<longrightarrow> runWorker_index rt ev h = (Inl e, h4))
   \<and> (\<forall>q \<in> set (drop (length h) (snd (runWorker_part0 rt ev h))).
         method q = ''GET'' \<or> method q = ''POST'')
   \<and> (\<forall>q \<in> set (drop (length h) (snd (runWorker_index rt ev h))).
         method q = ''GET'' \<or> method q = ''POST'')"
proof (intro conjI impI; (elim conjE)?)
  show "\<forall>q \<in> set (drop (length h) (snd (runWorker_part0 rt ev h))).
         method q = ''GET'' \<or> method q = ''POST''"
    by (rule run_methods_part0)
  show "\<forall>q \<in> set (drop (length h) (snd (runWorker_index rt ev h))).
         method q = ''GET'' \<or> method q = ''POST''"
    by (rule run_methods_index)
qed (simp_all add: runWorker_part0_stops_at_post runWorker_index_stops_at_post
      runWorker_part0_stops_at_image runWorker_index_stops_at_image
      runWorker_part0_stops_at_upload runWorker_index_stops_at_upload
      runWorker_part0_stops_at_update runWorker_index_stops_at_update
      no_write_before_upload_part0 no_write_before_upload_index)

theorem C3_each_call_gates_the_next_witness:
  "fst (runWorker_part0 (demo_runtime openai_down) demo_env []) =
     Inl (Error ''OpenAI error 500: overloaded'')
   \<and> filter (content_write (demo_runtime openai_down) demo_env)
        (snd (runWorker_part0 (demo_runtime openai_down) demo_env [])) = []
   \<and> length (snd (runWorker_part0 (demo_runtime openai_down) demo_env [])) = 2
   \<and> fst (runWorker_index (demo_runtime posts_unavailable) demo_env []) =
     Inl (Error (''WP API GET '' @ posts_endpoint @ '' 503: maintenance''))"
proof -
  let ?D = "demo_runtime openai_down"
  let ?h1 = "snd (getLatestPost_part0 ?D demo_env [])"
  let ?p = "prompt_part0 ''Best Cabs in Manchester''"
  let ?h2 = "snd (callOpenAIImage_part0 ?D demo_env ?p ?h1)"
  let ?U = "demo_runtime posts_unavailable"
  let ?k1 = "snd (getLatestPost_index ?U demo_env [])"
  let ?e = "Error (''WP API GET '' @ posts_endpoint @ '' 503: maintenance'')"
  have "fst (getLatestPost_part0 ?D demo_env []) = Inr (Some post42)" by code_simp
  then have a: "getLatestPost_part0 ?D demo_env [] = (Inr (Some post42), ?h1)"
    by (simp add: prod_eq_iff)
  have b: "runWorker_prompt_part0 (Some post42) = Inr (Some (JNum 42), ?p)" by code_simp
  have "fst (callOpenAIImage_part0 ?D demo_env ?p ?h1) = Inl (Error ''OpenAI error 500: overloaded'')"
    by code_simp
  then have c: "callOpenAIImage_part0 ?D demo_env ?p ?h1 =
      (Inl (Error ''OpenAI error 500: overloaded''), ?h2)"
    by (simp add: prod_eq_iff)
  have n: "length ?h2 = 2" by code_simp
  have "fst (getLatestPost_index ?U demo_env []) = Inl ?e" by code_simp
  then have d: "getLatestPost_index ?U demo_env [] = (Inl ?e, ?k1)"
    by (simp add: prod_eq_iff)
  have first: "runWorker_part0 ?D demo_env [] = (Inl (Error ''OpenAI error 500: overloaded''), ?h2)
      \<and> (\<forall>q \<in> set (drop (length ([]::request list)) ?h2). \<not> content_write ?D demo_env q)"
    by (rule C3_each_call_gates_the_next [THEN conjunct1, rule_format,
          OF conjI [OF a conjI [OF b c]]])
  have fourth: "runWorker_index ?U demo_env [] = (Inl ?e, ?k1)"
    by (rule C3_each_call_gates_the_next [THEN conjunct2, THEN conjunct2, THEN conjunct2,
          THEN conjunct1, rule_format, OF d])
  from first fourth n show ?thesis by (simp add: filter_empty_conv)
qed

subsection \<open>The reply to a run that completes\<close>

lemma uploadImageToWP_part0_truthy:
  assumes "uploadImageToWP_part0 rt ev buffer filename h = (Inr mid, h')"
  shows "truthy mid"
  using assms unfolding uploadImageToWP_part0_def
  by (auto elim!: await_returns split: if_splits)

lemma success_reply_part0:
  assumes "URL_new rt req_url = Inr u"
    and "pathname u = ''/run''"
    and "searchParams_get u ''secret'' = Some (WORKER_SECRET ev)"
    and "getLatestPost_part0 rt ev h = (Inr post, h1)"
    and "runWorker_prompt_part0 post = Inr (pid, prompt)"
    and "callOpenAIImage_part0 rt ev prompt h1 = (Inr img, h2)"
    and "uploadImageToWP_part0 rt ev img (filename_now rt) h2 = (Inr mid, h3)"
    and "ToString mid = Inr mid_text"
    and "setFeaturedImage rt ev pid mid h3 = (Inr updated, h4)"
  shows "get_prop ''id'' post = Inr pid"
    and "truthy mid"
    and "server_part0 rt ev req_url h =
           (\<lparr>statusCode = 200, sent_headers = [(''Content-Type'', ''application/json'')],
             sent_body = JSON_stringify_literal
               [(''ok'', Some (JBool True)), (''postId'', pid), (''mediaId'', mid)]\<rparr>, h4)"
proof -
  show "get_prop ''id'' post = Inr pid"
    using assms(5) by (rule runWorker_prompt_part0_id)
  show "truthy mid"
    using assms(7) by (rule uploadImageToWP_part0_truthy)
  have "runWorker_part0 rt ev h =
      (Inr \<lparr>result_ok = True, postId = pid, mediaId = mid\<rparr>, h4)"
    using assms(4-9) by (rule runWorker_part0_completes)
  from server_with_result [OF assms(1-3), of runWorker_part0, OF this]
  show "server_part0 rt ev req_url h =
           (\<lparr>statusCode = 200, sent_headers = [(''Content-Type'', ''application/json'')],
             sent_body = JSON_stringify_literal
               [(''ok'', Some (JBool True)), (''postId'', pid), (''mediaId'', mid)]\<rparr>, h4)"
    by (simp add: server_part0_def JSON_stringify_result_def)
qed

lemma success_reply_index:
  assumes "URL_new rt req_url = Inr u"
    and "pathname u = ''/run''"
    and "searchParams_get u ''secret'' = Some (WORKER_SECRET ev)"
    and "getLatestPost_index rt ev h = (Inr post, h1)"
    and "runWorker_prompt_index post = Inr (pid, prompt)"
    and "callOpenAIImage_index rt ev prompt h1 = (Inr img, h2)"
    and "uploadImageToWP_index rt ev img (filename_now rt) h2 = (Inr mid, h3)"
    and "ToString mid = Inr mid_text"
    and "setFeaturedImage rt ev pid mid h3 = (Inr updated, h4)"
  shows "get_prop ''id'' post = Inr pid"
    and "server_index rt ev req_url h =
           (\<lparr>statusCode = 200, sent_headers = [(''Content-Type'', ''application/json'')],
             sent_body = JSON_stringify_literal
               [(''ok'', Some (JBool True)), (''postId'', pid), (''mediaId'', mid)]\<rparr>, h4)"
proof -
  show "get_prop ''id'' post = Inr pid"
    using assms(5) by (rule runWorker_prompt_index_id)
  have "runWorker_index rt ev h =
      (Inr \<lparr>result_ok = True, postId = pid, mediaId = mid\<rparr>, h4)"
    using assms(4-9) by (rule runWorker_index_completes)
  from server_with_result [OF assms(1-3), of runWorker_index, OF this]
  show "server_index rt ev req_url h =
           (\<lparr>statusCode = 200, sent_headers = [(''Content-Type'', ''application/json'')],
             sent_body = JSON_stringify_literal
               [(''ok'', Some (JBool True)), (''postId'', pid), (''mediaId'', mid)]\<rparr>, h4)"
    by (simp add: server_index_def JSON_stringify_result_def)
qed

lemma success_reply_scenario:
  "server_part0 (demo_runtime happy_url) demo_env ''/run?secret=changeme'' [] =
     (\<lparr>statusCode = 200, sent_headers = [(''Content-Type'', ''application/json'')],
       sent_body = ''{'' @ [CHR 0x22] @ ''ok'' @ [CHR 0x22] @ '':true,''
          @ [CHR 0x22] @ ''postId'' @ [CHR 0x22] @ '':42,''
          @ [CHR 0x22] @ ''mediaId'' @ [CHR 0x22] @ '':900}''\<rparr>,
      snd (runWorker_part0 (demo_runtime happy_url) demo_env []))
   \<and> map url (snd (runWorker_part0 (demo_runtime happy_url) demo_env [])) =
       [''https://blog.example'' @ posts_endpoint,
        ''https://api.openai.com/v1/images/generations'',
        ''https://img.example/a.png'',
        ''https://blog.example/wp-json/wp/v2/media'',
        ''https://blog.example/wp-json/wp/v2/posts/42'']
   \<and> server_index (demo_runtime happy_inline) demo_env ''/run?secret=changeme'' [] =
     (\<lparr>statusCode = 200, sent_headers = [(''Content-Type'', ''application/json'')],
       sent_body = ''{'' @ [CHR 0x22] @ ''ok'' @ [CHR 0x22] @ '':true,''
          @ [CHR 0x22] @ ''postId'' @ [CHR 0x22] @ '':42,''
          @ [CHR 0x22] @ ''mediaId'' @ [CHR 0x22] @ '':900}''\<rparr>,
      snd (runWorker_index (demo_runtime happy_inline) demo_env []))"
  by code_simp


text \<open>
  Claim C8. An error raised in the pipeline reaches the listener as it was raised, and
  the listener answers with status 500 and the error's message as the body (no header
  is set on that path). Whatever error \<^verbatim>\<open>runWorker\<close> ends with is the one reported; and the
  error with which the fetch of the post, the image call, the upload or the
  featured-image update fails is the error \<^verbatim>\<open>runWorker\<close> ends with, in the trace that the
  failed call left, so that nothing is sent again. Both files.
\<close>

theorem C8_errors_reach_the_listener:
  assumes "URL_new rt req_url = Inr u"
    and "pathname u = ''/run''"
    and "searchParams_get u ''secret'' = Some (WORKER_SECRET ev)"
  shows "(runWorker_part0 rt ev h = (Inl e, h')
    \<longrightarrow> server_part0 rt ev req_url h =
          (\<lparr>statusCode = 500, sent_headers = [], sent_body = message e\<rparr>, h'))
   \<and> (runWorker_index rt ev h = (Inl e, h')
    \<longrightarrow> server_index rt ev req_url h =
          (\<lparr>statusCode = 500, sent_headers = [], sent_body = message e\<rparr>, h'))
   \<and> (getLatestPost_part0 rt ev h = (Inl e, h1)
    \<longrightarrow> server_part0 rt ev req_url h =
          (\<lparr>statusCode = 500, sent_headers = [], sent_body = message e\<rparr>, h1))
   \<and> (getLatestPost_index rt ev h = (Inl e, h1)
    \<longrightarrow> server_index rt ev req_url h =
          (\<lparr>statusCode = 500, sent_headers = [], sent_body = message e\<rparr>, h1))
   \<and> (getLatestPost_part0 rt ev h = (Inr post, h1)
      \<and> runWorker_prompt_part0 post = Inr (pid, prompt)
      \<and> callOpenAIImage_part0 rt ev prompt h1 = (Inl e, h2)
    \<longrightarrow> server_part0 rt ev req_url h =
          (\<lparr>statusCode = 500, sent_headers = [], sent_body = message e\<rparr>, h2))
   \<and> (getLatestPost_index rt ev h = (Inr post, h1)
      \<and> runWorker_prompt_index post = Inr (pid, prompt)
      \<and> callOpenAIImage_index rt ev prompt h1 = (Inl e, h2)
    \<longrightarrow> server_index rt ev req_url h =
          (\<lparr>statusCode = 500, sent_headers = [], sent_body = message e\<rparr>, h2))
   \<and> (getLatestPost_part0 rt ev h = (Inr post, h1)
      \<and> runWorker_prompt_part0 post = Inr (pid, prompt)
      \<and> callOpenAIImage_part0 rt ev prompt h1 = (Inr img, h2)
      \<and> uploadImageToWP_part0 rt ev img (filename_now rt) h2 = (Inl e, h3)
    \<longrightarrow> server_part0 rt ev req_url h =
          (\<lparr>statusCode = 500, sent_headers = [], sent_body = message e\<rparr>, h3))
   \<and> (getLatestPost_index rt ev h = (Inr post, h1)
      \<and> runWorker_prompt_index post = Inr (pid, prompt)
      \<and> callOpenAIImage_index rt ev prompt h1 = (Inr img, h2)
      \<and> uploadImageToWP_index rt ev img (filename_now rt) h2 = (Inl e, h3)
    \<longrightarrow> server_index rt ev req_url h =
          (\<lparr>statusCode = 500, sent_headers = [], sent_body = message e\<rparr>, h3))
   \<and> (getLatestPost_part0 rt ev h = (Inr post, h1)
      \<and> runWorker_prompt_part0 post = Inr (pid, prompt)
      \<and> callOpenAIImage_part0 rt ev prompt h1 = (Inr img, h2)
      \<and> uploadImageToWP_part0 rt ev img (filename_now rt) h2 = (Inr mid, h3)
      \<and> ToString mid = Inr mid_text
      \<and> setFeaturedImage rt ev pid mid h3 = (Inl e, h4)
    \<longrightarrow> server_part0 rt ev req_url h =
          (\<lparr>statusCode = 500, sent_headers = [], sent_body = message e\<rparr>, h4))
   \<and> (getLatestPost_index rt ev h = (Inr post, h1)
      \<and> runWorker_prompt_index post = Inr (pid, prompt)
      \<and> callOpenAIImage_index rt ev prompt h1 = (Inr img, h2)
      \<and> uploadImageToWP_index rt ev img (filename_now rt) h2 = (Inr mid, h3)
      \<and> ToString mid = Inr mid_text
      \<and> setFeaturedImage rt ev pid mid h3 = (Inl e, h4)
    \<longrightarrow> server_index rt ev req_url h =
          (\<lparr>statusCode = 500, sent_headers = [], sent_body = message e\<rparr>, h4))"
proof -
  have p: "\<And>e k. runWorker_part0 rt ev h = (Inl e, k) \<Longrightarrow> server_part0 rt ev req_url h =
          (\<lparr>statusCode = 500, sent_headers = [], sent_body = message e\<rparr>, k)"
    unfolding server_part0_def by (rule server_with_error [OF assms])
  have i: "\<And>e k. runWorker_index rt ev h = (Inl e, k) \<Longrightarrow> server_index rt ev req_url h =
          (\<lparr>statusCode = 500, sent_headers = [], sent_body = message e\<rparr>, k)"
    unfolding server_index_def by (rule server_with_error [OF assms])
  show ?thesis
    by (intro conjI impI; (elim conjE)?; (rule p | rule i))
       (simp_all add: runWorker_part0_stops_at_post runWorker_index_stops_at_post
          runWorker_part0_stops_at_image runWorker_index_stops_at_image
          runWorker_part0_stops_at_upload runWorker_index_stops_at_upload
          runWorker_part0_stops_at_update runWorker_index_stops_at_update)
qed

theorem C8_errors_reach_the_listener_witness:
  "fst (server_index (demo_runtime update_refused) demo_env ''/run?secret=changeme'' []) =
     \<lparr>statusCode = 500, sent_headers = [],
      sent_body = ''WP API POST /wp-json/wp/v2/posts/42 403: denied''\<rparr>
   \<and> fst (server_part0 (demo_runtime posts_unavailable) demo_env ''/run?secret=changeme'' []) =
     \<lparr>statusCode = 500, sent_headers = [],
      sent_body = ''WP API GET '' @ posts_endpoint @ '' 503: maintenance''\<rparr>"
proof -
  let ?D = "demo_runtime update_refused"
  let ?U = "demo_runtime posts_unavailable"
  let ?u = "\<lparr>pathname = ''/run'', searchParams = [(''secret'', ''changeme'')]\<rparr>"
  let ?e = "Error ''WP API POST /wp-json/wp/v2/posts/42 403: denied''"
  let ?f = "Error (''WP API GET '' @ posts_endpoint @ '' 503: maintenance'')"
  have u: "URL_new ?D ''/run?secret=changeme'' = Inr ?u"
          "URL_new ?U ''/run?secret=changeme'' = Inr ?u"
    by (simp_all add: demo_runtime_def demo_URL_new_def)
  have s: "searchParams_get ?u ''secret'' = Some (WORKER_SECRET demo_env)"
    by (simp add: searchParams_get_def WORKER_SECRET_def demo_env_def)
  have "fst (runWorker_index ?D demo_env []) = Inl ?e" by code_simp
  then have a: "runWorker_index ?D demo_env [] = (Inl ?e, snd (runWorker_index ?D demo_env []))"
    by (simp add: prod_eq_iff)
  have "fst (getLatestPost_part0 ?U demo_env []) = Inl ?f" by code_simp
  then have b: "getLatestPost_part0 ?U demo_env [] = (Inl ?f, snd (getLatestPost_part0 ?U demo_env []))"
    by (simp add: prod_eq_iff)
  have first: "server_index ?D demo_env ''/run?secret=changeme'' [] =
      (\<lparr>statusCode = 500, sent_headers = [], sent_body = message ?e\<rparr>,
       snd (runWorker_index ?D demo_env []))"
    by (rule C8_errors_reach_the_listener [OF u(1) _ s, THEN conjunct2, THEN conjunct1,
          rule_format, OF _ a]) simp
  have second: "server_part0 ?U demo_env ''/run?secret=changeme'' [] =
      (\<lparr>statusCode = 500, sent_headers = [], sent_body = message ?f\<rparr>,
       snd (getLatestPost_part0 ?U demo_env []))"
    by (rule C8_errors_reach_the_listener [OF u(2) _ s, THEN conjunct2, THEN conjunct2,
          THEN conjunct1, rule_format, OF _ b]) simp
  from first second show ?thesis by simp
qed

section \<open>The content client and the title\<close>

text \<open>
  Claim C4. Fetching the latest post fails with \<^verbatim>\<open>No posts found\<close> when the content API's
  result is an empty list or is not a list, and returns the first element otherwise.
  \<^verbatim>\<open>part_000\<close> does so (\<open>getLatestPost_part0_result\<close>). \<^verbatim>\<open>index.js\<close> only tests
  \<^verbatim>\<open>!posts.length\<close> (\<open>getLatestPost_index_result\<close>): for the object \<^verbatim>\<open>{"length":1}\<close> it
  returns \<^verbatim>\<open>undefined\<close> without failing, and for \<^verbatim>\<open>null\<close> it fails with a \<^verbatim>\<open>TypeError\<close>
  about \<^verbatim>\<open>length\<close>. The theorem runs \<^verbatim>\<open>index.js\<close> on these two results, the lemma after it
  \<^verbatim>\<open>part_000\<close>.
\<close>

theorem C4_index_non_sequence:
  "fst (getLatestPost_index (demo_runtime posts_not_a_list) demo_env []) = Inr None
   \<and> fst (getLatestPost_index (demo_runtime posts_null) demo_env []) =
       Inl (TypeError (''Cannot read properties of null (reading ''
                        @ [CHR 0x27] @ ''length'' @ [CHR 0x27] @ '')''))"
  by code_simp

lemma getLatestPost_part0_non_sequence:
  "fst (getLatestPost_part0 (demo_runtime posts_not_a_list) demo_env []) =
       Inl (Error ''No posts found'')
   \<and> fst (getLatestPost_part0 (demo_runtime posts_null) demo_env []) =
       Inl (Error ''No posts found'')"
  by code_simp

text \<open>
  Claim C5. The upload fails when the response is not successful or its body has no
  \<^verbatim>\<open>id\<close>, and returns the \<^verbatim>\<open>id\<close> otherwise. Both files fail on a response that is not
  successful (\<open>upload_not_ok\<close>), and \<^verbatim>\<open>part_000\<close> fails with \<^verbatim>\<open>Media upload missing id\<close> on
  a body without \<^verbatim>\<open>id\<close> (\<open>uploadImageToWP_part0_result\<close>). \<^verbatim>\<open>index.js\<close> has no such test
  (\<open>uploadImageToWP_index_result\<close>): on the body \<^verbatim>\<open>{}\<close> it returns \<^verbatim>\<open>undefined\<close> as the
  media id, and the run ends with status 200 and a result without \<^verbatim>\<open>mediaId\<close>.
\<close>

theorem C5_index_accepts_missing_id:
  "fst (uploadImageToWP_index (demo_runtime media_without_id) demo_env ''PNG-bytes''
          ''ai-taxi-1700.png'' []) = Inr None
   \<and> fst (uploadImageToWP_part0 (demo_runtime media_without_id) demo_env ''PNG-bytes''
          ''ai-taxi-1700.png'' []) = Inl (Error ''Media upload missing id'')
   \<and> fst (server_index (demo_runtime media_without_id) demo_env ''/run?secret=changeme'' []) =
       \<lparr>statusCode = 200, sent_headers = [(''Content-Type'', ''application/json'')],
        sent_body = ''{'' @ [CHR 0x22] @ ''ok'' @ [CHR 0x22] @ '':true,''
                    @ [CHR 0x22] @ ''postId'' @ [CHR 0x22] @ '':42}''\<rparr>"
  by code_simp

text \<open>
  Claim C6. A post without a rendered title, or with an empty one, gets the title
  \<^verbatim>\<open>(no title)\<close> in the prompt; any other rendered title appears in the prompt as it is
  (\<open>prompt_part0_contains\<close>, \<open>prompt_index_contains\<close>). \<^verbatim>\<open>part_000\<close> does so
  (\<open>title_part0_missing\<close>, \<open>title_part0_rendered\<close>), and so does \<^verbatim>\<open>index.js\<close> for a post
  that has a title object (\<open>title_index_rendered\<close>). But \<^verbatim>\<open>index.js\<close> reads
  \<^verbatim>\<open>post.title.rendered\<close> with no test of \<^verbatim>\<open>post.title\<close>: for the post \<^verbatim>\<open>{"id":42}\<close> the
  read throws, no prompt is built and the reply has status 500.
\<close>

theorem C6_index_missing_title:
  "title_index (Some (JObj [(''id'', JNum 42)])) =
     Inl (TypeError (''Cannot read properties of undefined (reading ''
                      @ [CHR 0x27] @ ''rendered'' @ [CHR 0x27] @ '')''))
   \<and> title_part0 (Some (JObj [(''id'', JNum 42)])) = Inr (Some (JStr ''(no title)''))
   \<and> runWorker_prompt_part0 (Some (JObj [(''id'', JNum 42)])) =
       Inr (Some (JNum 42), prompt_part0 ''(no title)'')
   \<and> server_index (demo_runtime posts_untitled) demo_env ''/run?secret=changeme'' [] =
       (\<lparr>statusCode = 500, sent_headers = [],
         sent_body = ''Cannot read properties of undefined (reading ''
                      @ [CHR 0x27] @ ''rendered'' @ [CHR 0x27] @ '')''\<rparr>,
        [\<lparr>method = ''GET'', url = ''https://blog.example'' @ posts_endpoint,
          headers = [(''Authorization'', ''Basic Ym90OnB3''),
                     (''Content-Type'', ''application/json'')],
          body = None\<rparr>])"
  by code_simp

section \<open>The image client that downloads from a URL\<close>

text \<open>
  Claim C7, as stated: after a successful first call the client fails when the response
  lacks the nested URL field, and otherwise sends a \<^verbatim>\<open>GET\<close> to that URL. The response
  \<^verbatim>\<open>{"data":[{"url":""}]}\<close> has the field, yet the client fails with
  \<^verbatim>\<open>OpenAI response missing image URL\<close> and sends no second request: the guard tests
  the field for truth, not for presence.
\<close>

theorem C7_empty_url_counterexample:
  "fetch (demo_runtime image_url_empty) []
       (openai_request demo_env [(''model'', JStr ''gpt-image-1''), (''prompt'', JStr ''p''),
                                 (''size'', JStr ''1024x1024'')])
     = Inr (json_reply 200 doc_image_url_empty)
   \<and> ok (json_reply 200 doc_image_url_empty)
   \<and> JSON_parse (demo_runtime image_url_empty) (content (json_reply 200 doc_image_url_empty))
     = Inr doc_image_url_empty
   \<and> image_url_field doc_image_url_empty = Some (JStr [])
   \<and> callOpenAIImage_part0 (demo_runtime image_url_empty) demo_env ''p'' [] =
       (Inl (Error ''OpenAI response missing image URL''),
        [openai_request demo_env [(''model'', JStr ''gpt-image-1''), (''prompt'', JStr ''p''),
                                  (''size'', JStr ''1024x1024'')]])"
  by code_simp

text \<open>
  Claim C7, amended. After a successful first call whose JSON body is not \<^verbatim>\<open>null\<close>: when
  \<^verbatim>\<open>data.data[0].url\<close> is missing or falsy (the empty string, 0, \<^verbatim>\<open>false\<close>, \<^verbatim>\<open>null\<close>), the
  client fails with \<^verbatim>\<open>OpenAI response missing image URL\<close> and sends nothing more; when it
  is a non-empty string, the client sends one \<^verbatim>\<open>GET\<close> to it, and then fails with the
  fetch's own error if the fetch is rejected, fails with
  \<^verbatim>\<open>Failed to download image from OpenAI URL: <status>\<close> if the response is not
  successful, and returns the body of the response otherwise.
\<close>

theorem C7_url_variant_amended:
  assumes "fetch rt h (openai_request ev [(''model'', JStr ''gpt-image-1''),
              (''prompt'', JStr prompt), (''size'', JStr ''1024x1024'')]) = Inr res"
    and "ok res"
    and "JSON_parse rt (content res) = Inr data"
    and "data \<noteq> JNull"
  shows "(\<not> truthy (image_url_field data) \<longrightarrow>
            callOpenAIImage_part0 rt ev prompt h =
              (Inl (Error ''OpenAI response missing image URL''),
               h @ [openai_request ev [(''model'', JStr ''gpt-image-1''),
                      (''prompt'', JStr prompt), (''size'', JStr ''1024x1024'')]]))
       \<and> (image_url_field data = Some (JStr u) \<and> u \<noteq> [] \<longrightarrow>
            callOpenAIImage_part0 rt ev prompt h =
              (case fetch rt (h @ [openai_request ev [(''model'', JStr ''gpt-image-1''),
                                     (''prompt'', JStr prompt), (''size'', JStr ''1024x1024'')]])
                      (download_request u) of
                 Inl e \<Rightarrow> Inl e
               | Inr imgRes \<Rightarrow>
                   if ok imgRes then Inr (content imgRes)
                   else Inl (Error (''Failed to download image from OpenAI URL: ''
                                     @ show_nat (status imgRes))),
               h @ [openai_request ev [(''model'', JStr ''gpt-image-1''),
                      (''prompt'', JStr prompt), (''size'', JStr ''1024x1024'')],
                    download_request u]))"
  using assms
  by (auto simp: callOpenAIImage_part0_def do_fetch_def await_def image_url_part0_eq
      download_error_def split: sum.splits)

theorem C7_url_variant_amended_witness:
  "callOpenAIImage_part0 (demo_runtime image_url_empty) demo_env ''p'' [] =
     (Inl (Error ''OpenAI response missing image URL''),
      [openai_request demo_env [(''model'', JStr ''gpt-image-1''), (''prompt'', JStr ''p''),
                                (''size'', JStr ''1024x1024'')]])
   \<and> callOpenAIImage_part0 (demo_runtime happy_url) demo_env ''p'' [] =
     (Inr ''PNG-bytes'',
      [openai_request demo_env [(''model'', JStr ''gpt-image-1''), (''prompt'', JStr ''p''),
                                (''size'', JStr ''1024x1024'')],
       download_request ''https://img.example/a.png''])
   \<and> callOpenAIImage_part0 (demo_runtime image_gone) demo_env ''p'' [] =
     (Inl (Error ''Failed to download image from OpenAI URL: 404''),
      [openai_request demo_env [(''model'', JStr ''gpt-image-1''), (''prompt'', JStr ''p''),
                                (''size'', JStr ''1024x1024'')],
       download_request ''https://img.example/a.png''])"
proof -
  let ?req = "openai_request demo_env [(''model'', JStr ''gpt-image-1''), (''prompt'', JStr ''p''),
                                (''size'', JStr ''1024x1024'')]"
  let ?get = "download_request ''https://img.example/a.png''"
  have f1: "fetch (demo_runtime image_url_empty) [] ?req = Inr (json_reply 200 doc_image_url_empty)"
    and f2: "fetch (demo_runtime happy_url) [] ?req = Inr (json_reply 200 doc_image_url)"
    and f3: "fetch (demo_runtime image_gone) [] ?req = Inr (json_reply 200 doc_image_url)"
    by code_simp+
  have o: "ok (json_reply 200 doc_image_url_empty)" "ok (json_reply 200 doc_image_url)"
    by code_simp+
  have p1: "JSON_parse (demo_runtime image_url_empty) (content (json_reply 200 doc_image_url_empty))
              = Inr doc_image_url_empty"
    and p2: "JSON_parse (demo_runtime happy_url) (content (json_reply 200 doc_image_url))
              = Inr doc_image_url"
    and p3: "JSON_parse (demo_runtime image_gone) (content (json_reply 200 doc_image_url))
              = Inr doc_image_url"
    by code_simp+
  have n: "doc_image_url_empty \<noteq> JNull" "doc_image_url \<noteq> JNull"
    by (simp_all add: doc_image_url_empty_def doc_image_url_def)
  have u1: "\<not> truthy (image_url_field doc_image_url_empty)"
    and u2: "image_url_field doc_image_url = Some (JStr ''https://img.example/a.png'')
               \<and> ''https://img.example/a.png'' \<noteq> []"
    by code_simp+
  have g2: "fetch (demo_runtime happy_url) [?req] ?get = Inr \<lparr>status = 200, content = ''PNG-bytes''\<rparr>"
    and g3: "fetch (demo_runtime image_gone) [?req] ?get = Inr \<lparr>status = 404, content = ''gone''\<rparr>"
    by code_simp+
  have k: "ok \<lparr>status = 200, content = ''PNG-bytes''\<rparr>" "\<not> ok \<lparr>status = 404, content = ''gone''\<rparr>"
    "show_nat 404 = ''404''"
    by code_simp+
  note first = C7_url_variant_amended [OF f1 o(1) p1 n(1), THEN conjunct1, rule_format, OF u1]
  note second = C7_url_variant_amended [OF f2 o(2) p2 n(2), THEN conjunct2, rule_format, OF u2]
  note third = C7_url_variant_amended [OF f3 o(2) p3 n(2), THEN conjunct2, rule_format, OF u2]
  from first second third show ?thesis
    by (simp add: g2 g3 k)
qed

end
